theory Spec2Isabelle
  imports Complex_Main
begin

section \<open>Numbers, time and other values supplied by the JavaScript runtime\<close>

text \<open>
  The calculation engine works on JavaScript numbers. They are modelled as real numbers:
  sums, products and quotients are exact, and every number is finite. Where the source
  reads the clock, parses a date string or asks for the day of the week, the value comes
  from the record \<open>Clock\<close>, one field for each reading the source makes. Date strings are
  those the data model documents (an ISO 8601 date for \<open>purchaseDate\<close>, the output of
  \<open>toISOString\<close> for \<open>lastUpdated\<close>), so that \<open>getTime\<close> is a number of milliseconds.

  A record field is a constant, so a local variable of the source that has the name of a
  field carries a prime here (\<open>costBasis'\<close> for the source's \<open>costBasis\<close>); the field \<open>notes\<close>
  is \<open>notes'\<close>, since \<open>notes\<close> is a keyword.
\<close>

record Clock =
  getTime :: "string \<Rightarrow> int"   \<comment> \<open>\<open>new Date(s).getTime()\<close>, milliseconds since the epoch\<close>
  now :: int                   \<comment> \<open>\<open>Date.now()\<close> and \<open>new Date().getTime()\<close>\<close>
  nowISO :: string             \<comment> \<open>\<open>new Date().toISOString()\<close>\<close>
  yearStart :: int             \<comment> \<open>\<open>getYearStart().getTime()\<close>: local midnight, January 1 of this year\<close>
  getFullYear :: int           \<comment> \<open>\<open>new Date().getFullYear()\<close>, the year \<open>getYearStart\<close> reads\<close>
  localDay :: nat              \<comment> \<open>\<open>new Date().getDay()\<close> in the browser's time zone, 0 = Sunday\<close>
  easternDay :: nat            \<comment> \<open>\<open>getDay()\<close> of the America/New_York wall clock\<close>
  easternHours :: nat          \<comment> \<open>\<open>getHours()\<close> of the America/New_York wall clock\<close>
  easternMinutes :: nat        \<comment> \<open>\<open>getMinutes()\<close> of the America/New_York wall clock\<close>

text \<open>
  A binary64 result whose exact value reaches \<open>2 ^ 1024\<close> in magnitude is not a finite
  double: the operation that produced it returns an infinity. \<open>toDouble\<close> records that
  much of the rounding and nothing else.
\<close>

datatype double = Finite real | PosInfinity | NegInfinity

definition toDouble :: "real \<Rightarrow> double" where
  "toDouble r =
     (if 2 ^ 1024 \<le> r then PosInfinity
      else if r \<le> - (2 ^ 1024) then NegInfinity
      else Finite r)"

definition isFinite :: "double \<Rightarrow> bool" where
  "isFinite d = (case d of Finite _ \<Rightarrow> True | _ \<Rightarrow> False)"

section \<open>Data model (types/portfolio.ts)\<close>

record ETF =
  symbol :: string
  name :: string
  exchange :: "string option"
  currency :: string

text \<open>
  The numeric fields of a purchase have type \<open>'n\<close>: the calculation engine reads purchases
  whose numbers are reals, the storage service writes whatever \<open>parseFloat\<close> returned.
\<close>

record 'n Purchase =
  id :: string
  etfSymbol :: string
  purchaseDate :: string
  shares :: 'n
  pricePerShare :: 'n
  totalCost :: 'n
  fees :: 'n
  notes' :: "string option"
  createdAt :: string
  updatedAt :: string

record ETFCacheEntry =
  etf :: ETF
  currentPrice :: real
  previousClose :: real
  lastUpdated :: string
  ytdStartPrice :: real

type_synonym ETFCache = "string \<Rightarrow> ETFCacheEntry option"

record 'n Portfolio =
  id :: string
  name :: string
  purchases :: "'n Purchase list"
  etfCache :: ETFCache
  createdAt :: string
  updatedAt :: string
  version :: int

record ETFPriceData =
  symbol :: string
  currentPrice :: real
  previousClose :: real
  change :: real
  changePercent :: real
  high52Week :: real
  low52Week :: real
  ytdChange :: real

record PurchaseMetrics =
  purchaseId :: string
  etfSymbol :: string
  shares :: real
  costBasis :: real
  currentValue :: real
  gainLoss :: real
  gainLossPercent :: real
  holdingPeriodDays :: int
  annualizedReturn :: real

record ETFHoldingMetrics =
  etfSymbol :: string
  etfName :: string
  totalShares :: real
  averageCostPerShare :: real
  totalCostBasis :: real
  currentPrice :: real
  currentValue :: real
  totalGainLoss :: real
  totalGainLossPercent :: real
  weightInPortfolio :: real
  purchases :: "PurchaseMetrics list"

record YTDPerformance =
  ytdGainLoss :: real
  ytdGainLossPercent :: real

record PortfolioMetrics =
  totalInvested :: real
  currentValue :: real
  totalGainLoss :: real
  totalGainLossPercent :: real
  ytdGainLoss :: real
  ytdGainLossPercent :: real
  holdings :: "ETFHoldingMetrics list"
  lastUpdated :: string

section \<open>Numeric primitives (lib/calculations/utils.ts)\<close>

definition calculateGainLoss :: "real \<Rightarrow> real \<Rightarrow> real" where
  "calculateGainLoss costBasis' currentValue' = currentValue' - costBasis'"

definition calculateGainLossPercent :: "real \<Rightarrow> real \<Rightarrow> real" where
  "calculateGainLossPercent costBasis' currentValue' =
     (if costBasis' = 0 then 0
      else ((currentValue' - costBasis') / costBasis') * 100)"

definition calculateWeightedAverageCost :: "real Purchase list \<Rightarrow> real" where
  "calculateWeightedAverageCost purchases' =
     (if length purchases' = 0 then 0
      else
        let totalShares' = foldl (\<lambda>sum p. sum + Purchase.shares p) 0 purchases';
            totalCost' = foldl (\<lambda>sum p. sum + Purchase.totalCost p) 0 purchases'
        in if totalShares' = 0 then 0 else totalCost' / totalShares')"

text \<open>
  \<open>Math.pow\<close> is only reached with a positive base, where it is the real power \<open>powr\<close>.
\<close>

definition calculateAnnualizedReturn :: "real \<Rightarrow> real \<Rightarrow> real \<Rightarrow> real" where
  "calculateAnnualizedReturn startValue endValue days =
     (if startValue \<le> 0 \<or> days \<le> 0 then 0
      else if endValue \<le> 0 then - 100
      else
        let ratio = endValue / startValue;
            yearsHeld = days / 365;
            cagr = ratio powr (1 / yearsHeld) - 1
        in cagr * 100)"

definition calculatePortfolioWeight :: "real \<Rightarrow> real \<Rightarrow> real" where
  "calculatePortfolioWeight holdingValue totalValue =
     (if totalValue = 0 then 0 else (holdingValue / totalValue) * 100)"

section \<open>Date utilities\<close>

text \<open>\<open>Math.floor\<close> of the quotient of two integers is \<open>div\<close> on \<open>int\<close>, which rounds down.\<close>

definition getDaysBetween :: "int \<Rightarrow> int \<Rightarrow> int" where
  "getDaysBetween startTime endTime =
     (let msPerDay = 1000 * 60 * 60 * 24
      in (endTime - startTime) div msPerDay)"

definition isMarketOpen :: "Clock \<Rightarrow> bool" where
  "isMarketOpen clock =
     (let dayOfWeek = easternDay clock;
          currentTimeInMinutes = easternHours clock * 60 + easternMinutes clock;
          marketOpen = 9 * 60 + 30;
          marketClose = 16 * 60;
          isWeekday = (dayOfWeek \<ge> 1 \<and> dayOfWeek \<le> 5);
          isDuringMarketHours =
            (currentTimeInMinutes \<ge> marketOpen \<and> currentTimeInMinutes < marketClose)
      in isWeekday \<and> isDuringMarketHours)"

section \<open>Purchase metrics and the ETF holding aggregator\<close>

definition calculatePurchaseMetrics :: "Clock \<Rightarrow> real Purchase \<Rightarrow> real \<Rightarrow> PurchaseMetrics" where
  "calculatePurchaseMetrics clock purchase currentPrice' =
     (let costBasis' = Purchase.totalCost purchase;
          currentValue' = Purchase.shares purchase * currentPrice';
          gainLoss' = calculateGainLoss costBasis' currentValue';
          gainLossPercent' = calculateGainLossPercent costBasis' currentValue';
          holdingPeriodDays' =
            getDaysBetween (getTime clock (Purchase.purchaseDate purchase)) (now clock);
          annualizedReturn' =
            calculateAnnualizedReturn costBasis' currentValue' (of_int holdingPeriodDays')
      in \<lparr> purchaseId = Purchase.id purchase,
           PurchaseMetrics.etfSymbol = Purchase.etfSymbol purchase,
           PurchaseMetrics.shares = Purchase.shares purchase,
           costBasis = costBasis',
           PurchaseMetrics.currentValue = currentValue',
           gainLoss = gainLoss',
           gainLossPercent = gainLossPercent',
           holdingPeriodDays = holdingPeriodDays',
           annualizedReturn = annualizedReturn' \<rparr>)"

definition calculateETFHoldingMetrics ::
  "Clock \<Rightarrow> real Purchase list \<Rightarrow> string \<Rightarrow> real \<Rightarrow> real \<Rightarrow> ETFHoldingMetrics" where
  "calculateETFHoldingMetrics clock purchases' etfName' currentPrice' totalPortfolioValue =
     (case purchases' of
        [] \<Rightarrow>
          \<lparr> ETFHoldingMetrics.etfSymbol = '''',
            etfName = etfName',
            totalShares = 0,
            averageCostPerShare = 0,
            totalCostBasis = 0,
            ETFHoldingMetrics.currentPrice = currentPrice',
            ETFHoldingMetrics.currentValue = 0,
            ETFHoldingMetrics.totalGainLoss = 0,
            ETFHoldingMetrics.totalGainLossPercent = 0,
            weightInPortfolio = 0,
            ETFHoldingMetrics.purchases = [] \<rparr>
      | first # _ \<Rightarrow>
          let etfSymbol' = Purchase.etfSymbol first;
              totalShares' = foldl (\<lambda>sum p. sum + Purchase.shares p) 0 purchases';
              totalCostBasis' = foldl (\<lambda>sum p. sum + Purchase.totalCost p) 0 purchases';
              currentValue' = totalShares' * currentPrice';
              averageCostPerShare' = calculateWeightedAverageCost purchases';
              totalGainLoss' = calculateGainLoss totalCostBasis' currentValue';
              totalGainLossPercent' = calculateGainLossPercent totalCostBasis' currentValue';
              weightInPortfolio' = calculatePortfolioWeight currentValue' totalPortfolioValue;
              purchaseMetrics =
                map (\<lambda>purchase. calculatePurchaseMetrics clock purchase currentPrice') purchases'
          in \<lparr> ETFHoldingMetrics.etfSymbol = etfSymbol',
               etfName = etfName',
               totalShares = totalShares',
               averageCostPerShare = averageCostPerShare',
               totalCostBasis = totalCostBasis',
               ETFHoldingMetrics.currentPrice = currentPrice',
               ETFHoldingMetrics.currentValue = currentValue',
               ETFHoldingMetrics.totalGainLoss = totalGainLoss',
               ETFHoldingMetrics.totalGainLossPercent = totalGainLossPercent',
               weightInPortfolio = weightInPortfolio',
               ETFHoldingMetrics.purchases = purchaseMetrics \<rparr>)"

section \<open>Grouping by symbol: the insertion-ordered \<open>Map\<close>\<close>

text \<open>
  A JavaScript \<open>Map\<close> iterates its keys in the order of their first insertion; \<open>set\<close> on a
  key that is present replaces the value and keeps the key's place. The map is a list of
  key-value pairs with distinct keys.
\<close>

fun Map_set :: "('k \<times> 'v) list \<Rightarrow> 'k \<Rightarrow> 'v \<Rightarrow> ('k \<times> 'v) list" where
  "Map_set [] k v = [(k, v)]"
| "Map_set ((k', v') # m) k v =
     (if k' = k then (k, v) # m else (k', v') # Map_set m k v)"

definition Map_get :: "('k \<times> 'v) list \<Rightarrow> 'k \<Rightarrow> 'v option" where
  "Map_get m k = map_of m k"

definition groupStep ::
  "'n Purchase \<Rightarrow> (string \<times> 'n Purchase list) list \<Rightarrow> (string \<times> 'n Purchase list) list" where
  "groupStep purchase purchasesBySymbol =
     (let existing =
            (case Map_get purchasesBySymbol (Purchase.etfSymbol purchase) of
               Some e \<Rightarrow> e | None \<Rightarrow> [])
      in Map_set purchasesBySymbol (Purchase.etfSymbol purchase) (existing @ [purchase]))"

definition groupBySymbol :: "'n Purchase list \<Rightarrow> (string \<times> 'n Purchase list) list" where
  "groupBySymbol purchases' = fold groupStep purchases' []"

section \<open>YTD performance calculator\<close>

definition ytdPurchaseStep ::
  "Clock \<Rightarrow> real \<Rightarrow> real \<Rightarrow> real Purchase \<Rightarrow> real \<times> real \<times> real \<Rightarrow> real \<times> real \<times> real" where
  "ytdPurchaseStep clock currentPrice' ytdStartPrice' purchase acc =
     (case acc of (ytdGainLoss', valueAtYearStart, newInvestmentsThisYear) \<Rightarrow>
        let purchaseTime = getTime clock (Purchase.purchaseDate purchase);
            currentValue' = Purchase.shares purchase * currentPrice'
        in if purchaseTime < yearStart clock then
             let valueAtStart = Purchase.shares purchase * ytdStartPrice'
             in (ytdGainLoss' + (currentValue' - valueAtStart),
                 valueAtYearStart + valueAtStart,
                 newInvestmentsThisYear)
           else
             (ytdGainLoss' + (currentValue' - Purchase.totalCost purchase),
              valueAtYearStart,
              newInvestmentsThisYear + Purchase.totalCost purchase))"

definition ytdSymbolStep ::
  "Clock \<Rightarrow> (string \<Rightarrow> ETFPriceData option) \<Rightarrow> string \<times> real Purchase list \<Rightarrow>
   real \<times> real \<times> real \<Rightarrow> real \<times> real \<times> real" where
  "ytdSymbolStep clock priceData entry acc =
     (case entry of (symbol', etfPurchases) \<Rightarrow>
        (case priceData symbol' of
           None \<Rightarrow> acc
         | Some price \<Rightarrow>
             let currentPrice' = ETFPriceData.currentPrice price;
                 ytdStartPrice' =
                   (if ytdChange price \<noteq> 0
                    then currentPrice' / (1 + ytdChange price / 100)
                    else currentPrice')
             in fold (ytdPurchaseStep clock currentPrice' ytdStartPrice') etfPurchases acc))"

definition calculateYTDPerformance ::
  "Clock \<Rightarrow> real Purchase list \<Rightarrow> (string \<Rightarrow> ETFPriceData option) \<Rightarrow> YTDPerformance" where
  "calculateYTDPerformance clock purchases' priceData =
     (let purchasesBySymbol = groupBySymbol purchases'
      in case fold (ytdSymbolStep clock priceData) purchasesBySymbol (0, 0, 0) of
           (ytdGainLoss', valueAtYearStart, newInvestmentsThisYear) \<Rightarrow>
             let base = valueAtYearStart + newInvestmentsThisYear;
                 ytdGainLossPercent' = (if base > 0 then (ytdGainLoss' / base) * 100 else 0)
             in \<lparr> YTDPerformance.ytdGainLoss = ytdGainLoss',
                  YTDPerformance.ytdGainLossPercent = ytdGainLossPercent' \<rparr>)"

section \<open>Portfolio metrics orchestrator\<close>

text \<open>
  \<open>Array.prototype.sort\<close> with a comparator is a stable sort: an insertion sort that puts
  an element in front of the first one it does not compare greater than.
\<close>

fun insertBy :: "('a \<Rightarrow> 'a \<Rightarrow> real) \<Rightarrow> 'a \<Rightarrow> 'a list \<Rightarrow> 'a list" where
  "insertBy cmp x [] = [x]"
| "insertBy cmp x (y # ys) =
     (if cmp x y \<le> 0 then x # y # ys else y # insertBy cmp x ys)"

definition Array_sort :: "('a \<Rightarrow> 'a \<Rightarrow> real) \<Rightarrow> 'a list \<Rightarrow> 'a list" where
  "Array_sort cmp xs = foldr (insertBy cmp) xs []"

definition totalValueStep ::
  "(string \<Rightarrow> ETFPriceData option) \<Rightarrow> string \<times> real Purchase list \<Rightarrow> real \<Rightarrow> real" where
  "totalValueStep priceData entry totalCurrentValue =
     (case entry of (symbol', etfPurchases) \<Rightarrow>
        (case priceData symbol' of
           None \<Rightarrow> totalCurrentValue
         | Some price \<Rightarrow>
             let totalShares' = foldl (\<lambda>sum p. sum + Purchase.shares p) 0 etfPurchases
             in totalCurrentValue + totalShares' * ETFPriceData.currentPrice price))"

definition holdingStep ::
  "Clock \<Rightarrow> ETFCache \<Rightarrow> (string \<Rightarrow> ETFPriceData option) \<Rightarrow> real \<Rightarrow>
   string \<times> real Purchase list \<Rightarrow> ETFHoldingMetrics list \<Rightarrow> ETFHoldingMetrics list" where
  "holdingStep clock etfCache' priceData totalCurrentValue entry holdings' =
     (case entry of (symbol', etfPurchases) \<Rightarrow>
        (case priceData symbol' of
           None \<Rightarrow> holdings'
         | Some price \<Rightarrow>
             let etfName' =
                   (case etfCache' symbol' of
                      None \<Rightarrow> symbol'
                    | Some cacheEntry \<Rightarrow>
                        if ETF.name (etf cacheEntry) \<noteq> '''' then ETF.name (etf cacheEntry)
                        else symbol');
                 holdingMetrics =
                   calculateETFHoldingMetrics clock etfPurchases etfName'
                     (ETFPriceData.currentPrice price) totalCurrentValue
             in holdings' @ [holdingMetrics]))"

definition calculatePortfolioMetrics ::
  "Clock \<Rightarrow> real Portfolio \<Rightarrow> (string \<Rightarrow> ETFPriceData option) \<Rightarrow> PortfolioMetrics" where
  "calculatePortfolioMetrics clock portfolio priceData =
     (let purchases' = Portfolio.purchases portfolio;
          etfCache' = Portfolio.etfCache portfolio
      in if length purchases' = 0 then
           \<lparr> totalInvested = 0,
             PortfolioMetrics.currentValue = 0,
             PortfolioMetrics.totalGainLoss = 0,
             PortfolioMetrics.totalGainLossPercent = 0,
             PortfolioMetrics.ytdGainLoss = 0,
             PortfolioMetrics.ytdGainLossPercent = 0,
             holdings = [],
             PortfolioMetrics.lastUpdated = nowISO clock \<rparr>
         else
           let purchasesBySymbol = groupBySymbol purchases';
               totalCurrentValue = fold (totalValueStep priceData) purchasesBySymbol 0;
               holdings' =
                 fold (holdingStep clock etfCache' priceData totalCurrentValue)
                   purchasesBySymbol [];
               sortedHoldings =
                 Array_sort
                   (\<lambda>a b. ETFHoldingMetrics.currentValue b - ETFHoldingMetrics.currentValue a)
                   holdings';
               totalInvested' = foldl (\<lambda>sum p. sum + Purchase.totalCost p) 0 purchases';
               totalGainLoss' = calculateGainLoss totalInvested' totalCurrentValue;
               totalGainLossPercent' = calculateGainLossPercent totalInvested' totalCurrentValue;
               ytd = calculateYTDPerformance clock purchases' priceData
           in \<lparr> totalInvested = totalInvested',
                PortfolioMetrics.currentValue = totalCurrentValue,
                PortfolioMetrics.totalGainLoss = totalGainLoss',
                PortfolioMetrics.totalGainLossPercent = totalGainLossPercent',
                PortfolioMetrics.ytdGainLoss = YTDPerformance.ytdGainLoss ytd,
                PortfolioMetrics.ytdGainLossPercent = YTDPerformance.ytdGainLossPercent ytd,
                holdings = sortedHoldings,
                PortfolioMetrics.lastUpdated = nowISO clock \<rparr>)"

section \<open>Price cache service\<close>

definition CACHE_TTL_MARKET_HOURS :: int where "CACHE_TTL_MARKET_HOURS = 5 * 60 * 1000"
definition CACHE_TTL_AFTER_HOURS :: int where "CACHE_TTL_AFTER_HOURS = 30 * 60 * 1000"
definition CACHE_TTL_CLOSED :: int where "CACHE_TTL_CLOSED = 60 * 60 * 1000"

definition getCurrentCacheTTL :: "Clock \<Rightarrow> int" where
  "getCurrentCacheTTL clock =
     (if isMarketOpen clock then CACHE_TTL_MARKET_HOURS
      else
        let day = localDay clock
        in if day = 0 \<or> day = 6 then CACHE_TTL_CLOSED else CACHE_TTL_AFTER_HOURS)"

text \<open>
  \<open>toUpperCase\<close> and \<open>trim\<close> on the characters a symbol can hold: ASCII letters are
  raised, and blanks, tabs and line breaks are dropped from both ends. Strings are
  8-bit here: the white space of JavaScript outside ASCII (U+00A0, U+FEFF, the Unicode
  space separators) and the letters outside ASCII are not modelled.
\<close>

definition toUpperChar :: "char \<Rightarrow> char" where
  "toUpperChar c =
     (case map_of (zip ''abcdefghijklmnopqrstuvwxyz'' ''ABCDEFGHIJKLMNOPQRSTUVWXYZ'') c of
        Some u \<Rightarrow> u
      | None \<Rightarrow> c)"

definition toUpperCase :: "string \<Rightarrow> string" where
  "toUpperCase s = map toUpperChar s"

definition isWhiteSpace :: "char \<Rightarrow> bool" where
  "isWhiteSpace c = (c \<in> set [CHR '' '', CHR 0x09, CHR 0x0A, CHR 0x0B, CHR 0x0C, CHR 0x0D])"

definition trim :: "string \<Rightarrow> string" where
  "trim s = rev (dropWhile isWhiteSpace (rev (dropWhile isWhiteSpace s)))"

text \<open>
  \<open>getPriceCache\<close> reads the stored cache; its argument is the parsed content of the
  \<open>PRICE_CACHE\<close> item, \<open>None\<close> when the storage is unavailable, the item is absent or its
  text does not parse.
\<close>

definition getPriceCache :: "ETFCache option \<Rightarrow> ETFCache" where
  "getPriceCache stored = (case stored of None \<Rightarrow> Map.empty | Some cache \<Rightarrow> cache)"

definition updatePriceCache :: "Clock \<Rightarrow> ETFCache option \<Rightarrow> string \<Rightarrow> ETFPriceData \<Rightarrow> ETFCache" where
  "updatePriceCache clock stored symbol' data =
     (let normalizedSymbol = trim (toUpperCase symbol');
          cache = getPriceCache stored;
          cacheEntry =
            \<lparr> etf = \<lparr> ETF.symbol = normalizedSymbol, ETF.name = '''', exchange = None,
                      currency = ''USD'' \<rparr>,
              ETFCacheEntry.currentPrice = ETFPriceData.currentPrice data,
              ETFCacheEntry.previousClose = ETFPriceData.previousClose data,
              ETFCacheEntry.lastUpdated = nowISO clock,
              ytdStartPrice = ETFPriceData.currentPrice data / (1 + ytdChange data / 100) \<rparr>
      in cache(normalizedSymbol \<mapsto> cacheEntry))"

record CachedPrice =
  price :: real
  stale :: bool

definition getCachedPrice :: "Clock \<Rightarrow> ETFCache option \<Rightarrow> string \<Rightarrow> CachedPrice option" where
  "getCachedPrice clock stored symbol' =
     (let normalizedSymbol = trim (toUpperCase symbol');
          cache = getPriceCache stored
      in case cache normalizedSymbol of
           None \<Rightarrow> None
         | Some entry \<Rightarrow>
             let lastUpdated' = getTime clock (ETFCacheEntry.lastUpdated entry);
                 age = now clock - lastUpdated';
                 ttl = getCurrentCacheTTL clock
             in Some \<lparr> price = ETFCacheEntry.currentPrice entry, stale = (age > ttl) \<rparr>)"

definition isCacheStale :: "Clock \<Rightarrow> ETFCache option \<Rightarrow> string \<Rightarrow> bool" where
  "isCacheStale clock stored symbol' =
     (case getCachedPrice clock stored symbol' of
        None \<Rightarrow> True
      | Some cached \<Rightarrow> stale cached)"

text \<open>The market session and its TTL as the specification words them.\<close>

datatype MarketSession = MARKET_HOURS | AFTER_HOURS | CLOSED

definition spec_marketSession :: "Clock \<Rightarrow> MarketSession" where
  "spec_marketSession clock =
     (let weekday = (1 \<le> easternDay clock \<and> easternDay clock \<le> 5);
          weekend = (easternDay clock = 0 \<or> easternDay clock = 6);
          minutes = easternHours clock * 60 + easternMinutes clock
      in if weekday \<and> 9 * 60 + 30 \<le> minutes \<and> minutes < 16 * 60 then MARKET_HOURS
         else if weekend then CLOSED
         else AFTER_HOURS)"

definition spec_currentTTL :: "Clock \<Rightarrow> int" where
  "spec_currentTTL clock =
     (case spec_marketSession clock of
        MARKET_HOURS \<Rightarrow> 5 * 60 * 1000
      | AFTER_HOURS \<Rightarrow> 30 * 60 * 1000
      | CLOSED \<Rightarrow> 60 * 60 * 1000)"

section \<open>Portfolio service (lib/storage/portfolio.service.ts)\<close>

text \<open>
  \<open>parseFloat\<close> returns a number or \<open>NaN\<close>. Arithmetic on these values is that of the
  reals, and \<open>NaN\<close> whenever an operand is \<open>NaN\<close>.
\<close>

datatype number = NaN | Num real

definition numTimes :: "number \<Rightarrow> number \<Rightarrow> number" where
  "numTimes a b = (case (a, b) of (Num x, Num y) \<Rightarrow> Num (x * y) | _ \<Rightarrow> NaN)"

definition numPlus :: "number \<Rightarrow> number \<Rightarrow> number" where
  "numPlus a b = (case (a, b) of (Num x, Num y) \<Rightarrow> Num (x + y) | _ \<Rightarrow> NaN)"

text \<open>\<open>x || 0\<close> on a number: \<open>NaN\<close> and 0 are falsy.\<close>

definition orZero :: "number \<Rightarrow> number" where
  "orZero x = (case x of NaN \<Rightarrow> Num 0 | Num r \<Rightarrow> if r = 0 then Num 0 else Num r)"

record PurchaseFormData =
  etfSymbol :: string
  purchaseDate :: string
  shares :: string
  pricePerShare :: string
  fees :: string
  notes' :: string

text \<open>\<open>Partial<PurchaseFormData>\<close>: a field that is \<open>undefined\<close> is \<open>None\<close>.\<close>

record PartialPurchaseFormData =
  etfSymbol :: "string option"
  purchaseDate :: "string option"
  shares :: "string option"
  pricePerShare :: "string option"
  fees :: "string option"
  notes' :: "string option"

datatype json =
    JNull
  | JBool bool
  | JNumber real
  | JString string
  | JArray "json list"
  | JObject "(string \<times> json) list"

datatype error =
    InvalidJSONFormat          \<comment> \<open>\<open>Error('Invalid JSON format')\<close>\<close>
  | InvalidPortfolio string    \<comment> \<open>\<open>Error('Invalid portfolio: ...')\<close>\<close>
  | InvalidPurchase string     \<comment> \<open>\<open>Error('Invalid purchase: ...')\<close>\<close>
  | TypeError                  \<comment> \<open>a property read on \<open>null\<close>\<close>
  | PurchaseNotFound string    \<comment> \<open>\<open>Error(`Purchase with ID ${id} not found`)\<close>\<close>
  | SaveFailed string          \<comment> \<open>thrown by \<open>savePortfolio\<close>\<close>

record Browser =
  parseFloat :: "string \<Rightarrow> number"
  generateId :: string                       \<comment> \<open>the value \<open>generateId()\<close> returns\<close>
  setItemSucceeds :: bool                    \<comment> \<open>what \<open>safeSetItem\<close> returns\<close>
  JSON_parse :: "string \<Rightarrow> json option"      \<comment> \<open>\<open>None\<close> when \<open>JSON.parse\<close> throws\<close>

text \<open>
  \<open>savePortfolio\<close> serialises the portfolio and writes it. The values written here are
  trees, which \<open>JSON.stringify\<close> always serialises, so the write is what can fail. What is
  written is not read back by the operations below and is not part of the model.
\<close>

definition savePortfolio :: "Browser \<Rightarrow> error option" where
  "savePortfolio browser =
     (if setItemSucceeds browser then None
      else Some (SaveFailed ''Failed to save portfolio to localStorage''))"

definition addPurchase ::
  "Clock \<Rightarrow> Browser \<Rightarrow> number Portfolio \<Rightarrow> PurchaseFormData \<Rightarrow> error + number Portfolio" where
  "addPurchase clock browser portfolio data =
     (let now' = nowISO clock;
          shares' = parseFloat browser (PurchaseFormData.shares data);
          pricePerShare' = parseFloat browser (PurchaseFormData.pricePerShare data);
          fees' = orZero (parseFloat browser (PurchaseFormData.fees data));
          purchase =
            \<lparr> Purchase.id = generateId browser,
              Purchase.etfSymbol = trim (toUpperCase (PurchaseFormData.etfSymbol data)),
              Purchase.purchaseDate = PurchaseFormData.purchaseDate data,
              Purchase.shares = shares',
              Purchase.pricePerShare = pricePerShare',
              Purchase.totalCost = numPlus (numTimes shares' pricePerShare') fees',
              Purchase.fees = fees',
              Purchase.notes' =
                (let trimmed = trim (PurchaseFormData.notes' data)
                 in if trimmed = '''' then None else Some trimmed),
              Purchase.createdAt = now',
              Purchase.updatedAt = now' \<rparr>;
          updatedPortfolio =
            portfolio\<lparr> Portfolio.purchases := Portfolio.purchases portfolio @ [purchase],
                       Portfolio.updatedAt := now' \<rparr>
      in case savePortfolio browser of
           Some e \<Rightarrow> Inl e
         | None \<Rightarrow> Inr updatedPortfolio)"

text \<open>\<open>findIndex\<close>: the first index whose element satisfies the predicate, \<open>None\<close> for -1.\<close>

fun findIndex :: "('a \<Rightarrow> bool) \<Rightarrow> 'a list \<Rightarrow> nat option" where
  "findIndex P [] = None"
| "findIndex P (x # xs) =
     (if P x then Some 0
      else case findIndex P xs of None \<Rightarrow> None | Some i \<Rightarrow> Some (Suc i))"

definition updatePurchase ::
  "Clock \<Rightarrow> Browser \<Rightarrow> number Portfolio \<Rightarrow> string \<Rightarrow> PartialPurchaseFormData \<Rightarrow>
   error + number Portfolio" where
  "updatePurchase clock browser portfolio id' data =
     (case findIndex (\<lambda>p. Purchase.id p = id') (Portfolio.purchases portfolio) of
        None \<Rightarrow> Inl (PurchaseNotFound id')
      | Some purchaseIndex \<Rightarrow>
          let now' = nowISO clock;
              existingPurchase = Portfolio.purchases portfolio ! purchaseIndex;
              shares' =
                (case PartialPurchaseFormData.shares data of
                   Some s \<Rightarrow> parseFloat browser s
                 | None \<Rightarrow> Purchase.shares existingPurchase);
              pricePerShare' =
                (case PartialPurchaseFormData.pricePerShare data of
                   Some s \<Rightarrow> parseFloat browser s
                 | None \<Rightarrow> Purchase.pricePerShare existingPurchase);
              fees' =
                (case PartialPurchaseFormData.fees data of
                   Some s \<Rightarrow> parseFloat browser s
                 | None \<Rightarrow> Purchase.fees existingPurchase);
              updatedPurchase =
                existingPurchase
                  \<lparr> Purchase.etfSymbol :=
                      (case PartialPurchaseFormData.etfSymbol data of
                         Some s \<Rightarrow> trim (toUpperCase s)
                       | None \<Rightarrow> Purchase.etfSymbol existingPurchase),
                    Purchase.purchaseDate :=
                      (case PartialPurchaseFormData.purchaseDate data of
                         Some d \<Rightarrow> d
                       | None \<Rightarrow> Purchase.purchaseDate existingPurchase),
                    Purchase.shares := shares',
                    Purchase.pricePerShare := pricePerShare',
                    Purchase.totalCost := numPlus (numTimes shares' pricePerShare') fees',
                    Purchase.fees := fees',
                    Purchase.notes' :=
                      (case PartialPurchaseFormData.notes' data of
                         Some n \<Rightarrow> (let trimmed = trim n
                                    in if trimmed = '''' then None else Some trimmed)
                       | None \<Rightarrow> Purchase.notes' existingPurchase),
                    Purchase.updatedAt := now' \<rparr>;
              updatedPurchases = (Portfolio.purchases portfolio)[purchaseIndex := updatedPurchase];
              updatedPortfolio =
                portfolio\<lparr> Portfolio.purchases := updatedPurchases,
                           Portfolio.updatedAt := now' \<rparr>
          in case savePortfolio browser of
               Some e \<Rightarrow> Inl e
             | None \<Rightarrow> Inr updatedPortfolio)"

text \<open>
  The invariant of the specification on a stored purchase:
  \<open>totalCost == shares * pricePerShare + fees\<close>, an equation between numbers. A comparison
  with \<open>NaN\<close> on either side is false in JavaScript, so a purchase with a \<open>NaN\<close> among
  the four fields does not satisfy it.
\<close>

definition spec_totalCostInvariant :: "number Purchase \<Rightarrow> bool" where
  "spec_totalCostInvariant p =
     (case (Purchase.shares p, Purchase.pricePerShare p, Purchase.fees p, Purchase.totalCost p) of
        (Num s, Num pp, Num f, Num c) \<Rightarrow> c = s * pp + f
      | _ \<Rightarrow> False)"

section \<open>Import of a portfolio document\<close>

text \<open>
  A property read \<open>v.k\<close> on a parsed value that is not \<open>null\<close>: the member of an object,
  \<open>undefined\<close> (\<open>None\<close>) when the object has no such member or the value is not an object.
  None of the keys read below is a built-in property of a string, a number, a boolean or
  an array.
\<close>

definition getProp :: "json \<Rightarrow> string \<Rightarrow> json option" where
  "getProp v k = (case v of JObject members \<Rightarrow> Map_get members k | _ \<Rightarrow> None)"

definition truthy :: "json option \<Rightarrow> bool" where
  "truthy v =
     (case v of
        None \<Rightarrow> False
      | Some JNull \<Rightarrow> False
      | Some (JBool b) \<Rightarrow> b
      | Some (JNumber r) \<Rightarrow> r \<noteq> 0
      | Some (JString s) \<Rightarrow> s \<noteq> ''''
      | Some (JArray _) \<Rightarrow> True
      | Some (JObject _) \<Rightarrow> True)"

definition typeof :: "json option \<Rightarrow> string" where
  "typeof v =
     (case v of
        None \<Rightarrow> ''undefined''
      | Some JNull \<Rightarrow> ''object''
      | Some (JBool _) \<Rightarrow> ''boolean''
      | Some (JNumber _) \<Rightarrow> ''number''
      | Some (JString _) \<Rightarrow> ''string''
      | Some (JArray _) \<Rightarrow> ''object''
      | Some (JObject _) \<Rightarrow> ''object'')"

text \<open>The value of an expression whose \<open>typeof\<close> is \<open>'number'\<close>.\<close>

definition numberValue :: "json option \<Rightarrow> real" where
  "numberValue v = (case v of Some (JNumber r) \<Rightarrow> r | _ \<Rightarrow> 0)"

text \<open>\<open>a || b\<close>, and the value a property initialiser stores for an expression.\<close>

definition orElse :: "json option \<Rightarrow> json \<Rightarrow> json" where
  "orElse a b = (case a of Some v \<Rightarrow> if truthy a then v else b | None \<Rightarrow> b)"

definition validatePurchase :: "json \<Rightarrow> error option" where
  "validatePurchase purchase =
     (if purchase = JNull then Some TypeError
      else if \<not> truthy (getProp purchase ''id'') \<or> typeof (getProp purchase ''id'') \<noteq> ''string''
      then Some (InvalidPurchase ''missing or invalid id'')
      else if \<not> truthy (getProp purchase ''etfSymbol'')
              \<or> typeof (getProp purchase ''etfSymbol'') \<noteq> ''string''
      then Some (InvalidPurchase ''missing or invalid etfSymbol'')
      else if typeof (getProp purchase ''shares'') \<noteq> ''number''
              \<or> numberValue (getProp purchase ''shares'') \<le> 0
      then Some (InvalidPurchase ''shares must be a positive number'')
      else if typeof (getProp purchase ''pricePerShare'') \<noteq> ''number''
              \<or> numberValue (getProp purchase ''pricePerShare'') \<le> 0
      then Some (InvalidPurchase ''pricePerShare must be a positive number'')
      else None)"

fun validatePurchases :: "json list \<Rightarrow> error option" where
  "validatePurchases [] = None"
| "validatePurchases (purchase # rest) =
     (case validatePurchase purchase of
        Some e \<Rightarrow> Some e
      | None \<Rightarrow> validatePurchases rest)"

text \<open>
  \<open>{...p, createdAt: p.createdAt || now, updatedAt: p.updatedAt || now}\<close>. A purchase that
  passed the validation is an object; the spread of anything else is taken as empty.
\<close>

definition backfillPurchase :: "string \<Rightarrow> json \<Rightarrow> json" where
  "backfillPurchase now' p =
     (let members = (case p of JObject ms \<Rightarrow> ms | _ \<Rightarrow> []);
          withCreated =
            Map_set members ''createdAt'' (orElse (getProp p ''createdAt'') (JString now'))
      in JObject (Map_set withCreated ''updatedAt''
                    (orElse (getProp p ''updatedAt'') (JString now'))))"

definition CURRENT_SCHEMA_VERSION :: real where
  "CURRENT_SCHEMA_VERSION = 1"

definition importPortfolio :: "Clock \<Rightarrow> Browser \<Rightarrow> string \<Rightarrow> error + json" where
  "importPortfolio clock browser jsonText =
     (let data = (case JSON_parse browser jsonText of Some v \<Rightarrow> v | None \<Rightarrow> JNull)
      in if \<not> truthy (Some data) then Inl InvalidJSONFormat
         else if \<not> truthy (getProp data ''id'') \<or> typeof (getProp data ''id'') \<noteq> ''string''
         then Inl (InvalidPortfolio ''missing or invalid id'')
         else if \<not> truthy (getProp data ''name'') \<or> typeof (getProp data ''name'') \<noteq> ''string''
         then Inl (InvalidPortfolio ''missing or invalid name'')
         else
           (case getProp data ''purchases'' of
              Some (JArray dataPurchases) \<Rightarrow>
                (case validatePurchases dataPurchases of
                   Some e \<Rightarrow> Inl e
                 | None \<Rightarrow>
                     let now' = nowISO clock;
                         portfolio =
                           JObject
                             [(''id'', orElse (getProp data ''id'') JNull),
                              (''name'', orElse (getProp data ''name'') JNull),
                              (''purchases'', JArray (map (backfillPurchase now') dataPurchases)),
                              (''etfCache'', orElse (getProp data ''etfCache'') (JObject [])),
                              (''createdAt'', orElse (getProp data ''createdAt'') (JString now')),
                              (''updatedAt'', JString now'),
                              (''version'', JNumber CURRENT_SCHEMA_VERSION)]
                     in (case savePortfolio browser of
                           Some e \<Rightarrow> Inl e
                         | None \<Rightarrow> Inr portfolio))
            | _ \<Rightarrow> Inl (InvalidPortfolio ''purchases must be an array'')))"

text \<open>
  The validation rule as the specification words it. A string member is missing when it
  is absent, is not a string, or is the empty string; a number member is positive when it
  is a number above 0.
\<close>

definition spec_missingString :: "json option \<Rightarrow> bool" where
  "spec_missingString v = (case v of Some (JString s) \<Rightarrow> s = '''' | _ \<Rightarrow> True)"

definition spec_positiveNumber :: "json option \<Rightarrow> bool" where
  "spec_positiveNumber v = (case v of Some (JNumber r) \<Rightarrow> 0 < r | _ \<Rightarrow> False)"

definition spec_invalidPurchase :: "json \<Rightarrow> bool" where
  "spec_invalidPurchase p =
     (spec_missingString (getProp p ''id'')
      \<or> spec_missingString (getProp p ''etfSymbol'')
      \<or> \<not> spec_positiveNumber (getProp p ''shares'')
      \<or> \<not> spec_positiveNumber (getProp p ''pricePerShare''))"

definition spec_rejects :: "json option \<Rightarrow> bool" where
  "spec_rejects document =
     (case document of
        None \<Rightarrow> True
      | Some data \<Rightarrow>
          spec_missingString (getProp data ''id'')
          \<or> spec_missingString (getProp data ''name'')
          \<or> (case getProp data ''purchases'' of
                Some (JArray ps) \<Rightarrow> list_ex spec_invalidPurchase ps
              | _ \<Rightarrow> True))"

text \<open>
  The errors raised while the document is checked, as opposed to the error of the write.
  A purchase entry that is \<open>null\<close> stops the check with a \<open>TypeError\<close>.
\<close>

definition isValidationError :: "error \<Rightarrow> bool" where
  "isValidationError e =
     (case e of
        InvalidJSONFormat \<Rightarrow> True
      | InvalidPortfolio _ \<Rightarrow> True
      | InvalidPurchase _ \<Rightarrow> True
      | TypeError \<Rightarrow> True
      | PurchaseNotFound _ \<Rightarrow> False
      | SaveFailed _ \<Rightarrow> False)"

text \<open>The object literal that \<open>importPortfolio\<close> builds, named for the proofs.\<close>

definition importedPortfolio :: "string \<Rightarrow> json \<Rightarrow> json list \<Rightarrow> json" where
  "importedPortfolio now' data ps =
     JObject
       [(''id'', orElse (getProp data ''id'') JNull),
        (''name'', orElse (getProp data ''name'') JNull),
        (''purchases'', JArray (map (backfillPurchase now') ps)),
        (''etfCache'', orElse (getProp data ''etfCache'') (JObject [])),
        (''createdAt'', orElse (getProp data ''createdAt'') (JString now')),
        (''updatedAt'', JString now'),
        (''version'', JNumber CURRENT_SCHEMA_VERSION)]"

section \<open>The YTD decomposition as the specification words it\<close>

text \<open>
  The specification describes the YTD result purchase by purchase: what one purchase adds
  to \<open>valueAtYearStart\<close>, to \<open>newInvestmentsThisYear\<close> and to \<open>ytdGainLoss\<close>, given the
  quote of its symbol (\<open>None\<close> when the symbol has no quote) and given whether the
  purchase is held since before this year.
\<close>

definition spec_ytdStartPrice :: "ETFPriceData \<Rightarrow> real" where
  "spec_ytdStartPrice quote =
     (if ytdChange quote = 0 then ETFPriceData.currentPrice quote
      else ETFPriceData.currentPrice quote / (1 + ytdChange quote / 100))"

definition spec_valueAtYearStart :: "bool \<Rightarrow> ETFPriceData option \<Rightarrow> real Purchase \<Rightarrow> real" where
  "spec_valueAtYearStart heldBefore quoteOfSymbol p =
     (case quoteOfSymbol of
        None \<Rightarrow> 0
      | Some quote \<Rightarrow>
          if heldBefore then Purchase.shares p * spec_ytdStartPrice quote else 0)"

definition spec_newInvestment :: "bool \<Rightarrow> ETFPriceData option \<Rightarrow> real Purchase \<Rightarrow> real" where
  "spec_newInvestment heldBefore quoteOfSymbol p =
     (case quoteOfSymbol of
        None \<Rightarrow> 0
      | Some quote \<Rightarrow> if heldBefore then 0 else Purchase.totalCost p)"

definition spec_ytdGain :: "bool \<Rightarrow> ETFPriceData option \<Rightarrow> real Purchase \<Rightarrow> real" where
  "spec_ytdGain heldBefore quoteOfSymbol p =
     (case quoteOfSymbol of
        None \<Rightarrow> 0
      | Some quote \<Rightarrow>
          if heldBefore
          then Purchase.shares p * ETFPriceData.currentPrice quote
                 - Purchase.shares p * spec_ytdStartPrice quote
          else Purchase.shares p * ETFPriceData.currentPrice quote - Purchase.totalCost p)"

definition spec_decomposition ::
  "(real Purchase \<Rightarrow> bool) \<Rightarrow> real Purchase list \<Rightarrow> (string \<Rightarrow> ETFPriceData option) \<Rightarrow>
   YTDPerformance" where
  "spec_decomposition heldBefore ps priceData =
     (let gain = (\<Sum>p\<leftarrow>ps. spec_ytdGain (heldBefore p) (priceData (Purchase.etfSymbol p)) p);
          denominator =
            (\<Sum>p\<leftarrow>ps. spec_valueAtYearStart (heldBefore p) (priceData (Purchase.etfSymbol p)) p)
            + (\<Sum>p\<leftarrow>ps. spec_newInvestment (heldBefore p) (priceData (Purchase.etfSymbol p)) p)
      in \<lparr> YTDPerformance.ytdGainLoss = gain,
           YTDPerformance.ytdGainLossPercent =
             (if denominator \<le> 0 then 0 else gain / denominator * 100) \<rparr>)"

text \<open>
  A purchase date is a calendar date \<open>YYYY-MM-DD\<close> with no time of day. It lies before
  January 1 of the current year exactly when its year is below the current year, and the
  purchase is one of this year otherwise.
\<close>

definition digitOf :: "char \<Rightarrow> int" where
  "digitOf c =
     (case map_of (zip ''0123456789'' [0, 1, 2, 3, 4, 5, 6, 7, 8, 9]) c of
        Some d \<Rightarrow> d
      | None \<Rightarrow> 0)"

definition spec_yearOfDate :: "string \<Rightarrow> int" where
  "spec_yearOfDate date = foldl (\<lambda>n c. 10 * n + digitOf c) 0 (take 4 date)"

definition spec_heldBeforeYearStart :: "Clock \<Rightarrow> real Purchase \<Rightarrow> bool" where
  "spec_heldBeforeYearStart clock p =
     (spec_yearOfDate (Purchase.purchaseDate p) < getFullYear clock)"

definition spec_YTDPerformance ::
  "Clock \<Rightarrow> real Purchase list \<Rightarrow> (string \<Rightarrow> ETFPriceData option) \<Rightarrow> YTDPerformance" where
  "spec_YTDPerformance clock ps priceData =
     spec_decomposition (spec_heldBeforeYearStart clock) ps priceData"

text \<open>
  The position at which a symbol first appears in the input, as \<open>indexOf\<close> counts it.
\<close>

definition firstIndexOf :: "'a \<Rightarrow> 'a list \<Rightarrow> nat" where
  "firstIndexOf x xs = length (takeWhile (\<lambda>y. y \<noteq> x) xs)"

section \<open>Example data\<close>

text \<open>
  A clock reading (Monday 2 March 2026, 10:00 in New York, in a browser whose time zone
  is America/New_York), purchases, quotes and a portfolio, used to run the definitions on
  concrete inputs. \<open>new Date('YYYY-MM-DD')\<close> is midnight UTC of that day: 1767225600000
  for 2026-01-01. \<open>getYearStart()\<close> is \<open>new Date(2026, 0, 1)\<close>, midnight of January 1 in
  New York, which is 05:00 UTC: 1767243600000.
\<close>

definition exampleGetTime :: "string \<Rightarrow> int" where
  "exampleGetTime s =
     (if s = ''2025-06-15'' then 1749945600000
      else if s = ''2026-01-01'' then 1767225600000
      else if s = ''2026-02-01'' then 1769904000000
      else if s = ''2026-03-06T19:58:00.000Z'' then 1772827080000
      else if s = ''2026-03-06T20:58:00.000Z'' then 1772830680000
      else if s = ''2026-03-07T00:15:00.000Z'' then 1772842500000
      else 0)"

definition exampleClock :: Clock where
  "exampleClock =
     \<lparr> getTime = exampleGetTime,
       now = 1772463600000,
       nowISO = ''2026-03-02T15:00:00.000Z'',
       yearStart = 1767243600000,
       getFullYear = 2026,
       localDay = 1,
       easternDay = 1,
       easternHours = 10,
       easternMinutes = 0 \<rparr>"

definition examplePurchase :: "string \<Rightarrow> string \<Rightarrow> string \<Rightarrow> real \<Rightarrow> real \<Rightarrow> real \<Rightarrow> real Purchase" where
  "examplePurchase pid sy dt sh pr fee =
     \<lparr> Purchase.id = pid, Purchase.etfSymbol = sy, purchaseDate = dt,
       Purchase.shares = sh, pricePerShare = pr, Purchase.totalCost = sh * pr + fee,
       fees = fee, notes' = None,
       Purchase.createdAt = ''2026-02-01T10:00:00.000Z'',
       Purchase.updatedAt = ''2026-02-01T10:00:00.000Z'' \<rparr>"

definition exampleQuote :: "string \<Rightarrow> real \<Rightarrow> real \<Rightarrow> ETFPriceData" where
  "exampleQuote sy pr ytd =
     \<lparr> ETFPriceData.symbol = sy, ETFPriceData.currentPrice = pr,
       ETFPriceData.previousClose = pr, change = 0, changePercent = 0,
       high52Week = pr, low52Week = pr, ytdChange = ytd \<rparr>"

definition examplePortfolio :: "real Purchase list \<Rightarrow> real Portfolio" where
  "examplePortfolio ps =
     \<lparr> Portfolio.id = ''portfolio-1'', Portfolio.name = ''My Portfolio'',
       Portfolio.purchases = ps, etfCache = Map.empty,
       Portfolio.createdAt = ''2026-01-05T10:00:00.000Z'',
       Portfolio.updatedAt = ''2026-02-01T10:00:00.000Z'', version = 1 \<rparr>"

definition examplePurchases :: "real Purchase list" where
  "examplePurchases =
     [examplePurchase ''p1'' ''QQQ'' ''2025-06-15'' 5 180 0,
      examplePurchase ''p2'' ''VOO'' ''2025-06-15'' 10 90 0,
      examplePurchase ''p3'' ''BND'' ''2026-02-01'' 20 95 10,
      examplePurchase ''p4'' ''ARKK'' ''2026-02-01'' 3 50 0]"

definition exampleQuotes :: "string \<Rightarrow> ETFPriceData option" where
  "exampleQuotes =
     [''QQQ'' \<mapsto> exampleQuote ''QQQ'' 200 0,
      ''VOO'' \<mapsto> exampleQuote ''VOO'' 100 (- 20),
      ''BND'' \<mapsto> exampleQuote ''BND'' 100 25]"

definition clockAt :: "int \<Rightarrow> string \<Rightarrow> nat \<Rightarrow> nat \<Rightarrow> nat \<Rightarrow> nat \<Rightarrow> Clock" where
  "clockAt t isoText ld ed eh em =
     \<lparr> getTime = exampleGetTime, now = t, nowISO = isoText, yearStart = 1767243600000,
       getFullYear = 2026,
       localDay = ld, easternDay = ed, easternHours = eh, easternMinutes = em \<rparr>"

definition exampleSpy :: ETFPriceData where
  "exampleSpy = exampleQuote ''SPY'' 450 12"

definition exampleParseFloat :: "string \<Rightarrow> number" where
  "exampleParseFloat s =
     (if s = ''10'' then Num 10
      else if s = ''15'' then Num 15
      else if s = ''450.00'' then Num 450
      else if s = ''450'' then Num 450
      else if s = ''4.95'' then Num (495 / 100)
      else NaN)"

definition exampleDocument :: json where
  "exampleDocument =
     JObject
       [(''id'', JString ''portfolio-1''),
        (''name'', JString ''My Portfolio''),
        (''purchases'',
         JArray
           [JObject
              [(''id'', JString ''p1''), (''etfSymbol'', JString ''VOO''),
               (''purchaseDate'', JString ''2025-06-15''), (''shares'', JNumber 10),
               (''pricePerShare'', JNumber 400), (''totalCost'', JNumber 4000),
               (''fees'', JNumber 0), (''createdAt'', JString ''2025-06-15T09:00:00.000Z'')]]),
        (''version'', JNumber 1)]"

definition exampleBadDocument :: json where
  "exampleBadDocument =
     JObject
       [(''id'', JString ''portfolio-1''),
        (''name'', JString ''My Portfolio''),
        (''purchases'',
         JArray
           [JObject
              [(''id'', JString ''p1''), (''etfSymbol'', JString ''VOO''),
               (''shares'', JNumber 0), (''pricePerShare'', JNumber 400)]])]"

definition exampleJSONParse :: "string \<Rightarrow> json option" where
  "exampleJSONParse s =
     (if s = ''<exported portfolio>'' then Some exampleDocument
      else if s = ''<portfolio with zero shares>'' then Some exampleBadDocument
      else None)"

definition exampleBrowser :: Browser where
  "exampleBrowser =
     \<lparr> parseFloat = exampleParseFloat,
       generateId = ''550e8400-e29b-41d4-a716-446655440000'',
       setItemSucceeds = True,
       JSON_parse = exampleJSONParse \<rparr>"

definition exampleStoredPortfolio :: "number Purchase list \<Rightarrow> number Portfolio" where
  "exampleStoredPortfolio ps =
     \<lparr> Portfolio.id = ''portfolio-1'', Portfolio.name = ''My Portfolio'',
       Portfolio.purchases = ps, etfCache = Map.empty,
       Portfolio.createdAt = ''2026-01-05T10:00:00.000Z'',
       Portfolio.updatedAt = ''2026-02-01T10:00:00.000Z'', version = 1 \<rparr>"

definition exampleForm :: PurchaseFormData where
  "exampleForm =
     \<lparr> PurchaseFormData.etfSymbol = '' spy'', PurchaseFormData.purchaseDate = ''2026-02-01'',
       PurchaseFormData.shares = ''10'', PurchaseFormData.pricePerShare = ''450.00'',
       PurchaseFormData.fees = '''', PurchaseFormData.notes' = ''Monthly DCA'' \<rparr>"

definition exampleStoredPurchase :: "number \<Rightarrow> number \<Rightarrow> number \<Rightarrow> number \<Rightarrow> string \<Rightarrow> number Purchase" where
  "exampleStoredPurchase sh pr fee cost updated =
     \<lparr> Purchase.id = ''550e8400-e29b-41d4-a716-446655440000'', Purchase.etfSymbol = ''SPY'',
       Purchase.purchaseDate = ''2026-02-01'', Purchase.shares = sh,
       Purchase.pricePerShare = pr, Purchase.totalCost = cost, Purchase.fees = fee,
       Purchase.notes' = Some ''Monthly DCA'',
       Purchase.createdAt = ''2026-03-02T15:00:00.000Z'', Purchase.updatedAt = updated \<rparr>"

definition examplePatch :: PartialPurchaseFormData where
  "examplePatch =
     \<lparr> PartialPurchaseFormData.etfSymbol = None, PartialPurchaseFormData.purchaseDate = None,
       PartialPurchaseFormData.shares = Some ''15'', PartialPurchaseFormData.pricePerShare = None,
       PartialPurchaseFormData.fees = Some ''4.95'', PartialPurchaseFormData.notes' = None \<rparr>"

text \<open>
  The form of the edit dialog for the stored purchase of 10 shares at 450, after the user
  has cleared the fees field: the dialog fills every field from the stored purchase
  (\<open>shares.toString()\<close> is \<open>10\<close>, \<open>pricePerShare.toString()\<close> is \<open>450\<close>), checks the fees
  only when the field is not blank, and hands the whole form to \<open>updatePurchase\<close>.
\<close>

definition exampleEdit :: PartialPurchaseFormData where
  "exampleEdit =
     \<lparr> PartialPurchaseFormData.etfSymbol = Some ''SPY'',
       PartialPurchaseFormData.purchaseDate = Some ''2026-02-01'',
       PartialPurchaseFormData.shares = Some ''10'',
       PartialPurchaseFormData.pricePerShare = Some ''450'',
       PartialPurchaseFormData.fees = Some '''',
       PartialPurchaseFormData.notes' = Some ''Monthly DCA'' \<rparr>"

section \<open>Numeric primitives: properties\<close>

lemma foldl_add_sum_list:
  "foldl (\<lambda>sum p. sum + f p) a xs = a + sum_list (map f xs)" for a :: real
  by (induction xs arbitrary: a) simp_all

text \<open>
  Claim C2. With a positive start value, a positive number of days and a positive end
  value, \<open>calculateAnnualizedReturn\<close> is \<open>((endValue / startValue) ^ (365 / days) - 1) * 100\<close>;
  with a start value or a number of days that is not positive it is 0; with an end value
  that is not positive (start value and days positive) it is -100, whatever the magnitude.
\<close>

theorem annualizedReturn_formula:
  "(0 < startValue \<and> 0 < days \<and> 0 < endValue \<longrightarrow>
      calculateAnnualizedReturn startValue endValue days
        = ((endValue / startValue) powr (365 / days) - 1) * 100)
   \<and> (startValue \<le> 0 \<or> days \<le> 0 \<longrightarrow>
      calculateAnnualizedReturn startValue endValue days = 0)
   \<and> (0 < startValue \<and> 0 < days \<and> endValue \<le> 0 \<longrightarrow>
      calculateAnnualizedReturn startValue endValue days = - 100)"
  by (simp add: calculateAnnualizedReturn_def Let_def)

theorem annualizedReturn_formula_witness:
  "calculateAnnualizedReturn 1000 1200 365 = 20
   \<and> calculateAnnualizedReturn 1000 1200 0 = 0
   \<and> calculateAnnualizedReturn 0 1200 365 = 0
   \<and> calculateAnnualizedReturn 1000 (- 5) 30 = - 100"
  using annualizedReturn_formula [of 1000 365 1200]
        annualizedReturn_formula [of 1000 0 1200]
        annualizedReturn_formula [of 0 365 1200]
        annualizedReturn_formula [of 1000 30 "- 5"]
  by simp

text \<open>
  The example of the source's doc comment, \<open>calculateAnnualizedReturn(1000, 1100, 180)\<close>:
  the formula gives \<open>1.1 ^ (365 / 180)\<close>, a return between 21.32 and 21.33 percent.
\<close>

lemma annualizedReturn_180_days:
  "2132 / 100 < calculateAnnualizedReturn 1000 1100 180
   \<and> calculateAnnualizedReturn 1000 1100 180 < 2133 / 100"
proof -
  define x :: real where "x = (11 / 10) powr (73 / 36)"
  have pos: "0 < x" by (simp add: x_def)
  have x36: "x ^ 36 = (11 / 10) ^ 73"
  proof -
    have "x ^ 36 = x powr 36" using pos by simp
    also have "\<dots> = (11 / 10) powr (73 / 36 * 36)" by (simp add: x_def powr_powr)
    also have "\<dots> = (11 / 10) ^ 73" by simp
    finally show ?thesis .
  qed
  have lo: "12132 / 10000 < x"
  proof (rule ccontr)
    assume "\<not> 12132 / 10000 < x"
    then have "x \<le> 12132 / 10000" by simp
    then have "x ^ 36 \<le> (12132 / 10000) ^ 36" using pos by (intro power_mono) simp_all
    then show False unfolding x36 by (simp add: power_divide divide_simps)
  qed
  have hi: "x < 12133 / 10000"
  proof (rule ccontr)
    assume "\<not> x < 12133 / 10000"
    then have "12133 / 10000 \<le> x" by simp
    then have "(12133 / 10000) ^ 36 \<le> x ^ 36" by (intro power_mono) simp_all
    then show False unfolding x36 by (simp add: power_divide divide_simps)
  qed
  have "calculateAnnualizedReturn 1000 1100 180 = (x - 1) * 100"
    by (simp add: calculateAnnualizedReturn_def Let_def x_def)
  then show ?thesis using lo hi by simp
qed

text \<open>
  Claim C3 says that \<open>calculateAnnualizedReturn\<close> returns 0 whenever the CAGR is not
  finite. The function has no such guard. For a purchase of cost 1 that is worth 8 one day
  later, the exponent is 365 and the value returned is \<open>(8 ^ 365 - 1) * 100\<close>, beyond
  \<open>2 ^ 1024\<close>: as a double it is \<open>Infinity\<close>, and it is not 0.
\<close>

theorem annualizedReturn_overflow:
  "calculateAnnualizedReturn 1 8 1 = (8 ^ 365 - 1) * 100
   \<and> toDouble (calculateAnnualizedReturn 1 8 1) = PosInfinity
   \<and> \<not> isFinite (toDouble (calculateAnnualizedReturn 1 8 1))
   \<and> calculateAnnualizedReturn 1 8 1 \<noteq> 0"
  by (simp add: calculateAnnualizedReturn_def Let_def toDouble_def isFinite_def)

section \<open>The ETF holding aggregator: properties\<close>

lemma purchaseMetrics_fields:
  "PurchaseMetrics.shares (calculatePurchaseMetrics clock p cp) = Purchase.shares p"
  "PurchaseMetrics.currentValue (calculatePurchaseMetrics clock p cp) = Purchase.shares p * cp"
  "costBasis (calculatePurchaseMetrics clock p cp) = Purchase.totalCost p"
  "gainLoss (calculatePurchaseMetrics clock p cp) = Purchase.shares p * cp - Purchase.totalCost p"
  by (simp_all add: calculatePurchaseMetrics_def calculateGainLoss_def Let_def)

text \<open>
  Claim C10. The holding computed by \<open>calculateETFHoldingMetrics\<close> agrees with its own
  drill-down list: its total shares, current value, total cost basis and total gain/loss
  are the sums of the shares, current values, cost bases and gains of the per-purchase
  metrics it returns. The equations hold for every list of purchases, the empty one
  included.
\<close>

theorem holding_consistent_with_drill_down:
  "let h = calculateETFHoldingMetrics clock ps nm cp tv in
     totalShares h = (\<Sum>m\<leftarrow>ETFHoldingMetrics.purchases h. PurchaseMetrics.shares m)
     \<and> ETFHoldingMetrics.currentValue h
         = (\<Sum>m\<leftarrow>ETFHoldingMetrics.purchases h. PurchaseMetrics.currentValue m)
     \<and> totalCostBasis h = (\<Sum>m\<leftarrow>ETFHoldingMetrics.purchases h. costBasis m)
     \<and> ETFHoldingMetrics.totalGainLoss h
         = (\<Sum>m\<leftarrow>ETFHoldingMetrics.purchases h. gainLoss m)"
proof (cases ps)
  case Nil
  then show ?thesis by (simp add: calculateETFHoldingMetrics_def)
next
  case (Cons first rest)
  have sh: "(\<Sum>p\<leftarrow>ps. Purchase.shares p * cp) = (\<Sum>p\<leftarrow>ps. Purchase.shares p) * cp"
    by (simp add: sum_list_mult_const)
  have gl: "(\<Sum>p\<leftarrow>ps. Purchase.shares p * cp - Purchase.totalCost p)
              = (\<Sum>p\<leftarrow>ps. Purchase.shares p) * cp - (\<Sum>p\<leftarrow>ps. Purchase.totalCost p)"
    by (simp add: sum_list_subtractf sum_list_mult_const)
  have "calculateETFHoldingMetrics clock ps nm cp tv =
      \<lparr> ETFHoldingMetrics.etfSymbol = Purchase.etfSymbol first,
        etfName = nm,
        totalShares = (\<Sum>p\<leftarrow>ps. Purchase.shares p),
        averageCostPerShare = calculateWeightedAverageCost ps,
        totalCostBasis = (\<Sum>p\<leftarrow>ps. Purchase.totalCost p),
        ETFHoldingMetrics.currentPrice = cp,
        ETFHoldingMetrics.currentValue = (\<Sum>p\<leftarrow>ps. Purchase.shares p) * cp,
        ETFHoldingMetrics.totalGainLoss =
          (\<Sum>p\<leftarrow>ps. Purchase.shares p) * cp - (\<Sum>p\<leftarrow>ps. Purchase.totalCost p),
        ETFHoldingMetrics.totalGainLossPercent =
          calculateGainLossPercent (\<Sum>p\<leftarrow>ps. Purchase.totalCost p)
            ((\<Sum>p\<leftarrow>ps. Purchase.shares p) * cp),
        weightInPortfolio =
          calculatePortfolioWeight ((\<Sum>p\<leftarrow>ps. Purchase.shares p) * cp) tv,
        ETFHoldingMetrics.purchases = map (\<lambda>p. calculatePurchaseMetrics clock p cp) ps \<rparr>"
    unfolding calculateETFHoldingMetrics_def Cons
    by (simp add: Let_def foldl_add_sum_list calculateGainLoss_def)
  then show ?thesis
    using sh gl by (simp add: comp_def purchaseMetrics_fields)
qed

theorem holding_consistent_with_drill_down_witness:
  "totalShares
     (calculateETFHoldingMetrics exampleClock
        [examplePurchase ''p1'' ''VOO'' ''2025-06-15'' 10 400 0,
         examplePurchase ''p2'' ''VOO'' ''2026-02-01'' 5 410 50] ''Vanguard S&P 500 ETF'' 420 25000)
     = 15
   \<and> (\<Sum>m\<leftarrow>ETFHoldingMetrics.purchases
        (calculateETFHoldingMetrics exampleClock
          [examplePurchase ''p1'' ''VOO'' ''2025-06-15'' 10 400 0,
           examplePurchase ''p2'' ''VOO'' ''2026-02-01'' 5 410 50] ''Vanguard S&P 500 ETF'' 420 25000).
        PurchaseMetrics.currentValue m) = 6300
   \<and> (\<Sum>m\<leftarrow>ETFHoldingMetrics.purchases
        (calculateETFHoldingMetrics exampleClock
          [examplePurchase ''p1'' ''VOO'' ''2025-06-15'' 10 400 0,
           examplePurchase ''p2'' ''VOO'' ''2026-02-01'' 5 410 50] ''Vanguard S&P 500 ETF'' 420 25000).
        costBasis m) = 6100
   \<and> (\<Sum>m\<leftarrow>ETFHoldingMetrics.purchases
        (calculateETFHoldingMetrics exampleClock
          [examplePurchase ''p1'' ''VOO'' ''2025-06-15'' 10 400 0,
           examplePurchase ''p2'' ''VOO'' ''2026-02-01'' 5 410 50] ''Vanguard S&P 500 ETF'' 420 25000).
        gainLoss m) = 200"
  using holding_consistent_with_drill_down
    [of exampleClock
        "[examplePurchase ''p1'' ''VOO'' ''2025-06-15'' 10 400 0,
          examplePurchase ''p2'' ''VOO'' ''2026-02-01'' 5 410 50]"
        "''Vanguard S&P 500 ETF''" 420 25000]
  by (simp add: Let_def calculateETFHoldingMetrics_def examplePurchase_def
        calculateGainLoss_def)

section \<open>Grouping by symbol: properties\<close>

text \<open>
  Summing a per-purchase quantity group by group over the \<open>Map\<close> gives the sum over the
  purchases themselves.
\<close>

lemma sum_list_Map_set:
  fixes F :: "'k \<Rightarrow> 'v \<Rightarrow> real"
  shows "(\<Sum>(k', g)\<leftarrow>Map_set m k v. F k' g)
           = (\<Sum>(k', g)\<leftarrow>m. F k' g)
             - (case Map_get m k of None \<Rightarrow> 0 | Some old \<Rightarrow> F k old) + F k v"
  by (induction m) (auto simp: Map_get_def)

lemma sum_list_groupStep:
  fixes f :: "string \<Rightarrow> 'n Purchase \<Rightarrow> real"
  shows "(\<Sum>(k, g)\<leftarrow>groupStep p m. \<Sum>q\<leftarrow>g. f k q)
           = (\<Sum>(k, g)\<leftarrow>m. \<Sum>q\<leftarrow>g. f k q) + f (Purchase.etfSymbol p) p"
  by (simp add: groupStep_def Let_def sum_list_Map_set split: option.split)

lemma sum_list_fold_groupStep:
  fixes f :: "string \<Rightarrow> 'n Purchase \<Rightarrow> real"
  shows "(\<Sum>(k, g)\<leftarrow>fold groupStep ps m. \<Sum>q\<leftarrow>g. f k q)
           = (\<Sum>(k, g)\<leftarrow>m. \<Sum>q\<leftarrow>g. f k q) + (\<Sum>p\<leftarrow>ps. f (Purchase.etfSymbol p) p)"
  by (induction ps arbitrary: m) (simp_all add: sum_list_groupStep)

lemma sum_list_groupBySymbol:
  fixes f :: "string \<Rightarrow> 'n Purchase \<Rightarrow> real"
  shows "(\<Sum>(k, g)\<leftarrow>groupBySymbol ps. \<Sum>q\<leftarrow>g. f k q) = (\<Sum>p\<leftarrow>ps. f (Purchase.etfSymbol p) p)"
  by (simp add: groupBySymbol_def sum_list_fold_groupStep)

lemma keys_Map_set:
  "map fst (Map_set m k v) = (if k \<in> fst ` set m then map fst m else map fst m @ [k])"
  by (induction m) force+

lemma keys_groupStep:
  "map fst (groupStep p m)
     = (if Purchase.etfSymbol p \<in> fst ` set m then map fst m
        else map fst m @ [Purchase.etfSymbol p])"
  by (simp add: groupStep_def Let_def keys_Map_set)

lemma groupBySymbol_snoc: "groupBySymbol (ps @ [p]) = groupStep p (groupBySymbol ps)"
  by (simp add: groupBySymbol_def)

lemma set_keys_groupBySymbol:
  "fst ` set (groupBySymbol ps) = Purchase.etfSymbol ` set ps"
proof (induction ps rule: rev_induct)
  case Nil
  then show ?case by (simp add: groupBySymbol_def)
next
  case (snoc p ps)
  have "set (map fst (groupStep p (groupBySymbol ps)))
          = insert (Purchase.etfSymbol p) (fst ` set (groupBySymbol ps))"
    by (auto simp: keys_groupStep)
  then show ?case
    using snoc by (simp add: groupBySymbol_snoc)
qed

lemma firstIndexOf_append:
  "x \<in> set xs \<Longrightarrow> firstIndexOf x (xs @ ys) = firstIndexOf x xs"
  by (simp add: firstIndexOf_def takeWhile_append1)

lemma firstIndexOf_less_length:
  "x \<in> set xs \<Longrightarrow> firstIndexOf x xs < length xs"
  unfolding firstIndexOf_def
  by (induction xs) auto

lemma firstIndexOf_new:
  assumes "x \<notin> set xs"
  shows "firstIndexOf x (xs @ [x]) = length xs"
proof -
  have "takeWhile (\<lambda>y. y \<noteq> x) (xs @ [x]) = xs @ takeWhile (\<lambda>y. y \<noteq> x) [x]"
    by (rule takeWhile_append2) (use assms in auto)
  then show ?thesis by (simp add: firstIndexOf_def)
qed

lemma keys_groupBySymbol_in_order:
  "sorted_wrt (\<lambda>a b. firstIndexOf a (map Purchase.etfSymbol ps)
                     < firstIndexOf b (map Purchase.etfSymbol ps))
     (map fst (groupBySymbol ps))"
proof (induction ps rule: rev_induct)
  case Nil
  then show ?case by (simp add: groupBySymbol_def)
next
  case (snoc p ps)
  let ?syms = "map Purchase.etfSymbol ps"
  let ?s = "Purchase.etfSymbol p"
  let ?keys = "map fst (groupBySymbol ps)"
  have keys: "set ?keys = set ?syms"
    using set_keys_groupBySymbol [of ps] by simp
  have same: "firstIndexOf a (?syms @ [?s]) = firstIndexOf a ?syms" if "a \<in> set ?keys" for a
    using that keys firstIndexOf_append [of a ?syms "[?s]"] by blast
  have old: "sorted_wrt (\<lambda>a b. firstIndexOf a (?syms @ [?s]) < firstIndexOf b (?syms @ [?s])) ?keys"
    by (rule sorted_wrt_mono_rel [OF _ snoc.IH]) (simp only: same)
  have syms: "map Purchase.etfSymbol (ps @ [p]) = ?syms @ [?s]"
    by simp
  show ?case
  proof (cases "?s \<in> set ?keys")
    case True
    then have "map fst (groupBySymbol (ps @ [p])) = ?keys"
      by (simp add: groupBySymbol_snoc keys_groupStep)
    then show ?thesis
      using old by (simp only: syms)
  next
    case False
    then have new: "map fst (groupBySymbol (ps @ [p])) = ?keys @ [?s]"
      by (simp add: groupBySymbol_snoc keys_groupStep)
    have "firstIndexOf a (?syms @ [?s]) < firstIndexOf ?s (?syms @ [?s])" if "a \<in> set ?keys" for a
    proof -
      have "firstIndexOf ?s (?syms @ [?s]) = length ?syms"
        using False keys firstIndexOf_new [of ?s ?syms] by blast
      moreover have "firstIndexOf a ?syms < length ?syms"
        using that keys firstIndexOf_less_length [of a ?syms] by blast
      ultimately show ?thesis using same [OF that] by simp
    qed
    then show ?thesis
      unfolding new syms using old by (simp add: sorted_wrt_append)
  qed
qed

lemma set_Map_set: "set (Map_set m k v) \<subseteq> insert (k, v) (set m)"
  by (induction m) (auto split: if_splits)

lemma Map_get_in_set: "Map_get m k = Some v \<Longrightarrow> (k, v) \<in> set m"
  by (simp add: Map_get_def map_of_SomeD)

lemma groupStep_groups:
  assumes "\<forall>(k, g)\<in>set m. g \<noteq> [] \<and> (\<forall>q\<in>set g. Purchase.etfSymbol q = k)"
  shows "\<forall>(k, g)\<in>set (groupStep p m). g \<noteq> [] \<and> (\<forall>q\<in>set g. Purchase.etfSymbol q = k)"
proof -
  let ?s = "Purchase.etfSymbol p"
  define existing where "existing = (case Map_get m ?s of Some e \<Rightarrow> e | None \<Rightarrow> [])"
  have "\<forall>q\<in>set existing. Purchase.etfSymbol q = ?s"
  proof (cases "Map_get m ?s")
    case None
    then show ?thesis by (simp add: existing_def)
  next
    case (Some e)
    then have "(?s, e) \<in> set m" by (rule Map_get_in_set)
    with assms show ?thesis by (auto simp: existing_def Some)
  qed
  then have new: "existing @ [p] \<noteq> [] \<and> (\<forall>q\<in>set (existing @ [p]). Purchase.etfSymbol q = ?s)"
    by auto
  have "set (groupStep p m) \<subseteq> insert (?s, existing @ [p]) (set m)"
    unfolding groupStep_def Let_def existing_def by (rule set_Map_set)
  with assms new show ?thesis by blast
qed

lemma groupBySymbol_groups:
  "\<forall>(k, g)\<in>set (groupBySymbol ps). g \<noteq> [] \<and> (\<forall>p\<in>set g. Purchase.etfSymbol p = k)"
proof (induction ps rule: rev_induct)
  case Nil
  then show ?case by (simp add: groupBySymbol_def)
next
  case (snoc p ps)
  then show ?case
    unfolding groupBySymbol_snoc by (rule groupStep_groups)
qed

section \<open>The YTD calculator: properties\<close>

lemma fold_ytdPurchaseStep:
  "fold (ytdPurchaseStep clock (ETFPriceData.currentPrice quote) (spec_ytdStartPrice quote)) g (a, b, c)
     = (a + (\<Sum>p\<leftarrow>g. spec_ytdGain
                   (getTime clock (Purchase.purchaseDate p) < yearStart clock) (Some quote) p),
        b + (\<Sum>p\<leftarrow>g. spec_valueAtYearStart
                   (getTime clock (Purchase.purchaseDate p) < yearStart clock) (Some quote) p),
        c + (\<Sum>p\<leftarrow>g. spec_newInvestment
                   (getTime clock (Purchase.purchaseDate p) < yearStart clock) (Some quote) p))"
  by (induction g arbitrary: a b c)
     (simp_all add: ytdPurchaseStep_def Let_def spec_ytdGain_def spec_valueAtYearStart_def
        spec_newInvestment_def)

lemma ytdSymbolStep_sums:
  "ytdSymbolStep clock priceData (k, g) (a, b, c)
     = (a + (\<Sum>p\<leftarrow>g. spec_ytdGain
                   (getTime clock (Purchase.purchaseDate p) < yearStart clock) (priceData k) p),
        b + (\<Sum>p\<leftarrow>g. spec_valueAtYearStart
                   (getTime clock (Purchase.purchaseDate p) < yearStart clock) (priceData k) p),
        c + (\<Sum>p\<leftarrow>g. spec_newInvestment
                   (getTime clock (Purchase.purchaseDate p) < yearStart clock) (priceData k) p))"
proof (cases "priceData k")
  case None
  then show ?thesis
    by (simp add: ytdSymbolStep_def spec_ytdGain_def spec_valueAtYearStart_def
          spec_newInvestment_def)
next
  case (Some quote)
  have sp: "(if ytdChange quote \<noteq> 0
             then ETFPriceData.currentPrice quote / (1 + ytdChange quote / 100)
             else ETFPriceData.currentPrice quote) = spec_ytdStartPrice quote"
    by (simp add: spec_ytdStartPrice_def)
  show ?thesis
    unfolding ytdSymbolStep_def
    by (simp only: Some prod.case option.case Let_def sp fold_ytdPurchaseStep)
qed

lemma fold_ytdSymbolStep:
  "fold (ytdSymbolStep clock priceData) groups (a, b, c)
     = (a + (\<Sum>(k, g)\<leftarrow>groups. \<Sum>p\<leftarrow>g. spec_ytdGain
               (getTime clock (Purchase.purchaseDate p) < yearStart clock) (priceData k) p),
        b + (\<Sum>(k, g)\<leftarrow>groups. \<Sum>p\<leftarrow>g. spec_valueAtYearStart
               (getTime clock (Purchase.purchaseDate p) < yearStart clock) (priceData k) p),
        c + (\<Sum>(k, g)\<leftarrow>groups. \<Sum>p\<leftarrow>g. spec_newInvestment
               (getTime clock (Purchase.purchaseDate p) < yearStart clock) (priceData k) p))"
proof (induction groups arbitrary: a b c)
  case Nil
  then show ?case by simp
next
  case (Cons entry groups)
  obtain k g where e: "entry = (k, g)" by (cases entry)
  show ?case
    by (simp add: e ytdSymbolStep_sums Cons.IH add.assoc)
qed

text \<open>
  The grouped double loop of \<open>calculateYTDPerformance\<close> is the decomposition of the
  specification, purchase by purchase, for every list of purchases and every quote map,
  with the source's test for "held since before this year": the time value of the
  purchase date is below that of \<open>getYearStart()\<close>. The source and the specification
  write the same quotient for \<open>ytdStartPrice\<close>, so the equation does not depend on its value
  when \<open>ytdChange\<close> is -100.
\<close>

lemma calculateYTDPerformance_decomposition:
  "calculateYTDPerformance clock ps priceData
     = spec_decomposition (\<lambda>p. getTime clock (Purchase.purchaseDate p) < yearStart clock)
         ps priceData"
  by (simp add: calculateYTDPerformance_def spec_decomposition_def Let_def
        fold_ytdSymbolStep
        sum_list_groupBySymbol
          [where f = "\<lambda>k p. spec_ytdGain
                 (getTime clock (Purchase.purchaseDate p) < yearStart clock) (priceData k) p"]
        sum_list_groupBySymbol
          [where f = "\<lambda>k p. spec_valueAtYearStart
                 (getTime clock (Purchase.purchaseDate p) < yearStart clock) (priceData k) p"]
        sum_list_groupBySymbol
          [where f = "\<lambda>k p. spec_newInvestment
                 (getTime clock (Purchase.purchaseDate p) < yearStart clock) (priceData k) p"]
        not_less)

lemma spec_decomposition_cong:
  assumes "\<forall>p\<in>set ps. P p = Q p"
  shows "spec_decomposition P ps priceData = spec_decomposition Q ps priceData"
proof -
  have "map (\<lambda>p. f (P p) (priceData (Purchase.etfSymbol p)) p) ps
          = map (\<lambda>p. f (Q p) (priceData (Purchase.etfSymbol p)) p) ps"
    for f :: "bool \<Rightarrow> ETFPriceData option \<Rightarrow> real Purchase \<Rightarrow> real"
    using assms by simp
  note eq = this
  show ?thesis
    unfolding spec_decomposition_def
    by (simp only: eq [of spec_ytdGain] eq [of spec_valueAtYearStart] eq [of spec_newInvestment])
qed

text \<open>
  Where the source's test on time values agrees with the calendar on every purchase, the
  result is the one the specification describes.
\<close>

lemma ytd_decomposition_when_dates_agree:
  assumes "\<forall>p\<in>set ps. (getTime clock (Purchase.purchaseDate p) < yearStart clock)
                       = spec_heldBeforeYearStart clock p"
  shows "calculateYTDPerformance clock ps priceData = spec_YTDPerformance clock ps priceData"
  unfolding calculateYTDPerformance_decomposition spec_YTDPerformance_def
  using assms by (rule spec_decomposition_cong)

lemma ytd_scenarios:
  "calculateYTDPerformance exampleClock
     [examplePurchase ''p1'' ''VOO'' ''2025-06-15'' 10 90 0] [''VOO'' \<mapsto> exampleQuote ''VOO'' 105 5]
     = \<lparr> YTDPerformance.ytdGainLoss = 50, YTDPerformance.ytdGainLossPercent = 5 \<rparr>
   \<and> calculateYTDPerformance exampleClock
     [examplePurchase ''p1'' ''VOO'' ''2026-02-01'' 5 100 0] [''VOO'' \<mapsto> exampleQuote ''VOO'' 120 0]
     = \<lparr> YTDPerformance.ytdGainLoss = 100, YTDPerformance.ytdGainLossPercent = 20 \<rparr>
   \<and> calculateYTDPerformance exampleClock examplePurchases exampleQuotes
     = \<lparr> YTDPerformance.ytdGainLoss = - 160, YTDPerformance.ytdGainLossPercent = - 160 / 4160 * 100 \<rparr>"
  by (simp add: calculateYTDPerformance_decomposition spec_decomposition_def spec_ytdGain_def
        spec_valueAtYearStart_def spec_newInvestment_def spec_ytdStartPrice_def
        examplePurchases_def exampleQuotes_def
        exampleClock_def exampleGetTime_def examplePurchase_def exampleQuote_def Let_def)

text \<open>
  Claim C1 says that a purchase dated this year adds its \<open>totalCost\<close> to
  \<open>newInvestmentsThisYear\<close> and \<open>shares * currentPrice - totalCost\<close> to \<open>ytdGainLoss\<close>. The
  source compares time values: \<open>new Date('2026-01-01')\<close> is midnight UTC, and
  \<open>getYearStart()\<close> is midnight of January 1 in the browser's time zone, which in New York
  is five hours later. There a purchase dated January 1 of this year is taken as held
  since last year. For 10 shares bought on 2026-01-01 at a total cost of 900, with a
  current price of 105 and a YTD change of 5 percent, \<open>calculateYTDPerformance\<close> returns a
  gain of 50 and 5 percent; the decomposition of the claim gives a gain of 150 on a base
  of 900.
\<close>

theorem ytd_purchase_dated_january_first:
  "spec_yearOfDate ''2026-01-01'' = getFullYear exampleClock
   \<and> \<not> spec_heldBeforeYearStart exampleClock
         (examplePurchase ''p1'' ''VOO'' ''2026-01-01'' 10 90 0)
   \<and> getTime exampleClock ''2026-01-01'' < yearStart exampleClock
   \<and> calculateYTDPerformance exampleClock
        [examplePurchase ''p1'' ''VOO'' ''2026-01-01'' 10 90 0]
        [''VOO'' \<mapsto> exampleQuote ''VOO'' 105 5]
       = \<lparr> YTDPerformance.ytdGainLoss = 50, YTDPerformance.ytdGainLossPercent = 5 \<rparr>
   \<and> spec_YTDPerformance exampleClock
        [examplePurchase ''p1'' ''VOO'' ''2026-01-01'' 10 90 0]
        [''VOO'' \<mapsto> exampleQuote ''VOO'' 105 5]
       = \<lparr> YTDPerformance.ytdGainLoss = 150,
           YTDPerformance.ytdGainLossPercent = 150 / 900 * 100 \<rparr>"
  by (simp add: calculateYTDPerformance_decomposition spec_YTDPerformance_def
        spec_decomposition_def spec_heldBeforeYearStart_def spec_yearOfDate_def digitOf_def
        spec_ytdGain_def spec_valueAtYearStart_def spec_newInvestment_def spec_ytdStartPrice_def
        exampleClock_def exampleGetTime_def examplePurchase_def exampleQuote_def Let_def)

section \<open>The portfolio orchestrator: properties\<close>

text \<open>
  Claim C9. For a portfolio with no purchases \<open>calculatePortfolioMetrics\<close> returns 0 in
  every numeric field and no holdings, whatever the quote map holds; it does so before any
  grouping, and \<open>lastUpdated\<close> is the current time.
\<close>

theorem empty_portfolio_all_zero:
  "Portfolio.purchases portfolio = [] \<Longrightarrow>
   calculatePortfolioMetrics clock portfolio priceData =
     \<lparr> totalInvested = 0,
       PortfolioMetrics.currentValue = 0,
       PortfolioMetrics.totalGainLoss = 0,
       PortfolioMetrics.totalGainLossPercent = 0,
       PortfolioMetrics.ytdGainLoss = 0,
       PortfolioMetrics.ytdGainLossPercent = 0,
       holdings = [],
       PortfolioMetrics.lastUpdated = nowISO clock \<rparr>"
  by (simp add: calculatePortfolioMetrics_def)

theorem empty_portfolio_all_zero_witness:
  "Portfolio.purchases (examplePortfolio []) = []
   \<and> calculatePortfolioMetrics exampleClock (examplePortfolio [])
         [''VOO'' \<mapsto> exampleQuote ''VOO'' 420 5] =
     \<lparr> totalInvested = 0,
       PortfolioMetrics.currentValue = 0,
       PortfolioMetrics.totalGainLoss = 0,
       PortfolioMetrics.totalGainLossPercent = 0,
       PortfolioMetrics.ytdGainLoss = 0,
       PortfolioMetrics.ytdGainLossPercent = 0,
       holdings = [],
       PortfolioMetrics.lastUpdated = ''2026-03-02T15:00:00.000Z'' \<rparr>"
proof -
  have e: "Portfolio.purchases (examplePortfolio []) = []"
    by (simp add: examplePortfolio_def)
  show ?thesis
    using e empty_portfolio_all_zero [OF e, of exampleClock "[''VOO'' \<mapsto> exampleQuote ''VOO'' 420 5]"]
    by (simp add: exampleClock_def)
qed

lemma totalValueStep_sum:
  "totalValueStep priceData (k, g) t
     = t + (\<Sum>p\<leftarrow>g. case priceData k of None \<Rightarrow> 0
                      | Some q \<Rightarrow> Purchase.shares p * ETFPriceData.currentPrice q)"
  by (cases "priceData k")
     (simp_all add: totalValueStep_def Let_def foldl_add_sum_list sum_list_mult_const)

lemma fold_totalValueStep:
  "fold (totalValueStep priceData) groups t
     = t + (\<Sum>(k, g)\<leftarrow>groups. \<Sum>p\<leftarrow>g.
              case priceData k of None \<Rightarrow> 0
              | Some q \<Rightarrow> Purchase.shares p * ETFPriceData.currentPrice q)"
proof (induction groups arbitrary: t)
  case Nil
  then show ?case by simp
next
  case (Cons entry groups)
  obtain k g where e: "entry = (k, g)" by (cases entry)
  show ?case by (simp add: e totalValueStep_sum Cons.IH add.assoc)
qed

lemma totalCurrentValue_per_purchase:
  "fold (totalValueStep priceData) (groupBySymbol ps) 0
     = (\<Sum>p\<leftarrow>ps. case priceData (Purchase.etfSymbol p) of None \<Rightarrow> 0
                     | Some q \<Rightarrow> Purchase.shares p * ETFPriceData.currentPrice q)"
  by (simp add: fold_totalValueStep sum_list_groupBySymbol)

lemma sum_list_by_key:
  fixes f :: "'k \<Rightarrow> 'a \<Rightarrow> real"
  assumes "distinct ks" and "key ` set xs \<subseteq> set ks"
  shows "(\<Sum>x\<leftarrow>xs. f (key x) x) = (\<Sum>k\<leftarrow>ks. \<Sum>x\<leftarrow>filter (\<lambda>x. key x = k) xs. f k x)"
  using assms(2)
proof (induction xs)
  case Nil
  then show ?case by simp
next
  case (Cons x xs)
  have "(\<Sum>k\<leftarrow>ks. \<Sum>y\<leftarrow>filter (\<lambda>y. key y = k) (x # xs). f k y)
        = (\<Sum>k\<leftarrow>ks. (if key x = k then f k x else 0)
                   + (\<Sum>y\<leftarrow>filter (\<lambda>y. key y = k) xs. f k y))"
    by (rule arg_cong [where f = sum_list]) (rule map_cong, simp_all)
  also have "\<dots> = (\<Sum>k\<leftarrow>ks. if key x = k then f k x else 0)
                   + (\<Sum>k\<leftarrow>ks. \<Sum>y\<leftarrow>filter (\<lambda>y. key y = k) xs. f k y)"
    by (simp add: sum_list_addf)
  also have "(\<Sum>k\<leftarrow>ks. if key x = k then f k x else 0) = f (key x) x"
  proof -
    have "(\<Sum>k\<leftarrow>ks. if key x = k then f k x else 0)
            = (\<Sum>k\<in>set ks. if k = key x then f k x else 0)"
      using assms(1) by (simp add: sum_list_distinct_conv_sum_set eq_commute)
    also have "\<dots> = f (key x) x"
      using Cons.prems by (simp add: sum.delta)
    finally show ?thesis .
  qed
  finally show ?case using Cons by simp
qed

text \<open>
  Claim C4. \<open>totalInvested\<close> is the sum of \<open>totalCost\<close> over all purchases, those of symbols
  without a quote included; \<open>currentValue\<close> is the sum of \<open>shares * currentPrice\<close> over the
  purchases whose symbol has a quote, which is also the sum, over the distinct symbols that
  have a quote, of the symbol's total shares times its current price. A purchase of a
  symbol without a quote is counted in \<open>totalInvested\<close> and not in \<open>currentValue\<close>.
\<close>

theorem totalInvested_all_currentValue_quoted:
  "let m = calculatePortfolioMetrics clock portfolio priceData;
       ps = Portfolio.purchases portfolio
   in totalInvested m = (\<Sum>p\<leftarrow>ps. Purchase.totalCost p)
      \<and> PortfolioMetrics.currentValue m
          = (\<Sum>p\<leftarrow>filter (\<lambda>p. priceData (Purchase.etfSymbol p) \<noteq> None) ps.
               case priceData (Purchase.etfSymbol p) of
                 None \<Rightarrow> 0
               | Some quote \<Rightarrow> Purchase.shares p * ETFPriceData.currentPrice quote)
      \<and> PortfolioMetrics.currentValue m
          = (\<Sum>s\<leftarrow>remdups (map Purchase.etfSymbol ps).
               case priceData s of
                 None \<Rightarrow> 0
               | Some quote \<Rightarrow>
                   (\<Sum>p\<leftarrow>filter (\<lambda>p. Purchase.etfSymbol p = s) ps. Purchase.shares p)
                     * ETFPriceData.currentPrice quote)"
proof -
  define ps where "ps = Portfolio.purchases portfolio"
  define v :: "string \<Rightarrow> real Purchase \<Rightarrow> real"
    where "v = (\<lambda>k p. case priceData k of None \<Rightarrow> 0
                        | Some q \<Rightarrow> Purchase.shares p * ETFPriceData.currentPrice q)"
  have inv: "totalInvested (calculatePortfolioMetrics clock portfolio priceData)
               = (\<Sum>p\<leftarrow>ps. Purchase.totalCost p)"
    by (simp add: calculatePortfolioMetrics_def Let_def foldl_add_sum_list ps_def)
  have cur: "PortfolioMetrics.currentValue (calculatePortfolioMetrics clock portfolio priceData)
               = (\<Sum>p\<leftarrow>ps. v (Purchase.etfSymbol p) p)"
    by (simp add: calculatePortfolioMetrics_def Let_def totalCurrentValue_per_purchase
          ps_def v_def)
  have flt: "(\<Sum>p\<leftarrow>ps. v (Purchase.etfSymbol p) p)
               = (\<Sum>p\<leftarrow>filter (\<lambda>p. priceData (Purchase.etfSymbol p) \<noteq> None) ps.
                    v (Purchase.etfSymbol p) p)"
    unfolding sum_list_map_filter'
    by (rule arg_cong [where f = sum_list], rule map_cong) (auto simp: v_def)
  have "(\<Sum>p\<leftarrow>ps. v (Purchase.etfSymbol p) p)
          = (\<Sum>s\<leftarrow>remdups (map Purchase.etfSymbol ps).
               \<Sum>p\<leftarrow>filter (\<lambda>p. Purchase.etfSymbol p = s) ps. v s p)"
    by (rule sum_list_by_key) auto
  also have "\<dots> = (\<Sum>s\<leftarrow>remdups (map Purchase.etfSymbol ps).
               case priceData s of
                 None \<Rightarrow> 0
               | Some quote \<Rightarrow>
                   (\<Sum>p\<leftarrow>filter (\<lambda>p. Purchase.etfSymbol p = s) ps. Purchase.shares p)
                     * ETFPriceData.currentPrice quote)"
    by (rule arg_cong [where f = sum_list], rule map_cong)
       (auto simp: v_def sum_list_mult_const split: option.split)
  finally have sym: "(\<Sum>p\<leftarrow>ps. v (Purchase.etfSymbol p) p)
          = (\<Sum>s\<leftarrow>remdups (map Purchase.etfSymbol ps).
               case priceData s of
                 None \<Rightarrow> 0
               | Some quote \<Rightarrow>
                   (\<Sum>p\<leftarrow>filter (\<lambda>p. Purchase.etfSymbol p = s) ps. Purchase.shares p)
                     * ETFPriceData.currentPrice quote)" .
  show ?thesis
    unfolding Let_def ps_def [symmetric]
    using inv cur flt sym by (simp add: v_def)
qed

theorem totalInvested_all_currentValue_quoted_witness:
  "totalInvested
     (calculatePortfolioMetrics exampleClock (examplePortfolio examplePurchases) exampleQuotes) = 3860
   \<and> PortfolioMetrics.currentValue
     (calculatePortfolioMetrics exampleClock (examplePortfolio examplePurchases) exampleQuotes) = 4000"
  using totalInvested_all_currentValue_quoted
          [of exampleClock "examplePortfolio examplePurchases" exampleQuotes]
  by (simp add: examplePortfolio_def examplePurchases_def exampleQuotes_def
        examplePurchase_def exampleQuote_def Let_def)

lemma etfSymbol_calculateETFHoldingMetrics:
  "g \<noteq> [] \<Longrightarrow> \<forall>p\<in>set g. Purchase.etfSymbol p = k \<Longrightarrow>
   ETFHoldingMetrics.etfSymbol (calculateETFHoldingMetrics clock g nm cp tv) = k"
  by (cases g) (simp_all add: calculateETFHoldingMetrics_def Let_def)

lemma holdingStep_symbols:
  assumes "g \<noteq> []" and "\<forall>p\<in>set g. Purchase.etfSymbol p = k"
  shows "map ETFHoldingMetrics.etfSymbol (holdingStep clock cache priceData tv (k, g) hs)
           = map ETFHoldingMetrics.etfSymbol hs @ filter (\<lambda>k. priceData k \<noteq> None) [k]"
  by (cases "priceData k")
     (simp_all add: holdingStep_def Let_def etfSymbol_calculateETFHoldingMetrics [OF assms])

lemma fold_holdingStep_symbols:
  assumes "\<forall>(k, g)\<in>set groups. g \<noteq> [] \<and> (\<forall>p\<in>set g. Purchase.etfSymbol p = k)"
  shows "map ETFHoldingMetrics.etfSymbol (fold (holdingStep clock cache priceData tv) groups hs)
           = map ETFHoldingMetrics.etfSymbol hs
             @ filter (\<lambda>k. priceData k \<noteq> None) (map fst groups)"
  using assms
proof (induction groups arbitrary: hs)
  case Nil
  then show ?case by simp
next
  case (Cons entry groups)
  obtain k g where e: "entry = (k, g)" by (cases entry)
  from Cons.prems e have g: "g \<noteq> []" "\<forall>p\<in>set g. Purchase.etfSymbol p = k"
    and rest: "\<forall>(k, g)\<in>set groups. g \<noteq> [] \<and> (\<forall>p\<in>set g. Purchase.etfSymbol p = k)"
    by auto
  have "map ETFHoldingMetrics.etfSymbol
          (fold (holdingStep clock cache priceData tv) (entry # groups) hs)
        = map ETFHoldingMetrics.etfSymbol (holdingStep clock cache priceData tv (k, g) hs)
          @ filter (\<lambda>k. priceData k \<noteq> None) (map fst groups)"
    by (simp only: e fold_Cons comp_apply Cons.IH [OF rest])
  also have "\<dots> = map ETFHoldingMetrics.etfSymbol hs
          @ filter (\<lambda>k. priceData k \<noteq> None) (map fst (entry # groups))"
    by (simp add: holdingStep_symbols [OF g] e)
  finally show ?case .
qed

lemma set_insertBy: "set (insertBy cmp x ys) = insert x (set ys)"
  by (induction ys) auto

lemma set_Array_sort: "set (Array_sort cmp xs) = set xs"
  by (induction xs) (simp_all add: Array_sort_def set_insertBy)

lemma insertBy_sorted:
  fixes cv :: "'a \<Rightarrow> real"
  assumes "sorted_wrt (\<lambda>a b. cv b < cv a \<or> (cv a = cv b \<and> Q a b)) ys"
    and "\<forall>y\<in>set ys. Q x y"
  shows "sorted_wrt (\<lambda>a b. cv b < cv a \<or> (cv a = cv b \<and> Q a b))
           (insertBy (\<lambda>a b. cv b - cv a) x ys)"
  using assms
proof (induction ys)
  case Nil
  then show ?case by simp
next
  case (Cons y ys)
  show ?case
  proof (cases "cv y - cv x \<le> 0")
    case True
    then have "\<forall>z\<in>set (y # ys). cv z < cv x \<or> (cv x = cv z \<and> Q x z)"
      using Cons.prems by fastforce
    then show ?thesis using True Cons.prems by simp
  next
    case False
    then show ?thesis
      using Cons by (auto simp: set_insertBy)
  qed
qed

lemma Array_sort_sorted:
  fixes cv :: "'a \<Rightarrow> real"
  assumes "sorted_wrt Q xs"
  shows "sorted_wrt (\<lambda>a b. cv b < cv a \<or> (cv a = cv b \<and> Q a b))
           (Array_sort (\<lambda>a b. cv b - cv a) xs)"
  using assms
proof (induction xs)
  case Nil
  then show ?case by (simp add: Array_sort_def)
next
  case (Cons x xs)
  have step: "Array_sort (\<lambda>a b. cv b - cv a) (x # xs)
                = insertBy (\<lambda>a b. cv b - cv a) x (Array_sort (\<lambda>a b. cv b - cv a) xs)"
    by (simp add: Array_sort_def)
  show ?case
    unfolding step
    using Cons by (intro insertBy_sorted) (simp_all add: set_Array_sort)
qed

text \<open>
  Claim C6. The holdings returned by \<open>calculatePortfolioMetrics\<close> are in descending order
  of \<open>currentValue\<close>, and the sort is stable: of two holdings with the same \<open>currentValue\<close>,
  the one that comes first is the one whose symbol first appears earlier in the input
  purchases.
\<close>

theorem holdings_sorted_descending_stable:
  "let hs = holdings (calculatePortfolioMetrics clock portfolio priceData);
       syms = map Purchase.etfSymbol (Portfolio.purchases portfolio)
   in sorted_wrt (\<lambda>a b. ETFHoldingMetrics.currentValue a \<ge> ETFHoldingMetrics.currentValue b) hs
      \<and> sorted_wrt
          (\<lambda>a b. ETFHoldingMetrics.currentValue a = ETFHoldingMetrics.currentValue b \<longrightarrow>
                 firstIndexOf (ETFHoldingMetrics.etfSymbol a) syms
                   < firstIndexOf (ETFHoldingMetrics.etfSymbol b) syms) hs"
proof (cases "Portfolio.purchases portfolio")
  case Nil
  then show ?thesis by (simp add: calculatePortfolioMetrics_def)
next
  case (Cons p rest)
  define ps where "ps = Portfolio.purchases portfolio"
  define syms where "syms = map Purchase.etfSymbol ps"
  define tv where "tv = fold (totalValueStep priceData) (groupBySymbol ps) 0"
  define hs0 where
    "hs0 = fold (holdingStep clock (Portfolio.etfCache portfolio) priceData tv) (groupBySymbol ps) []"
  define Q :: "ETFHoldingMetrics \<Rightarrow> ETFHoldingMetrics \<Rightarrow> bool"
    where "Q = (\<lambda>a b. firstIndexOf (ETFHoldingMetrics.etfSymbol a) syms
                            < firstIndexOf (ETFHoldingMetrics.etfSymbol b) syms)"
  have hs: "holdings (calculatePortfolioMetrics clock portfolio priceData)
              = Array_sort (\<lambda>a b. ETFHoldingMetrics.currentValue b - ETFHoldingMetrics.currentValue a) hs0"
    using Cons by (simp add: calculatePortfolioMetrics_def Let_def hs0_def tv_def ps_def)
  have "map ETFHoldingMetrics.etfSymbol hs0
          = filter (\<lambda>k. priceData k \<noteq> None) (map fst (groupBySymbol ps))"
    unfolding hs0_def
    using fold_holdingStep_symbols [OF groupBySymbol_groups, of clock _ priceData tv ps "[]"]
    by simp
  moreover have "sorted_wrt (\<lambda>a b. firstIndexOf a syms < firstIndexOf b syms)
                   (filter (\<lambda>k. priceData k \<noteq> None) (map fst (groupBySymbol ps)))"
    unfolding syms_def by (intro sorted_wrt_filter keys_groupBySymbol_in_order)
  ultimately have "sorted_wrt (\<lambda>a b. firstIndexOf a syms < firstIndexOf b syms)
                     (map ETFHoldingMetrics.etfSymbol hs0)"
    by simp
  then have "sorted_wrt Q hs0"
    by (simp add: sorted_wrt_map Q_def)
  from Array_sort_sorted [OF this, of ETFHoldingMetrics.currentValue]
  have srt: "sorted_wrt
      (\<lambda>a b. ETFHoldingMetrics.currentValue b < ETFHoldingMetrics.currentValue a
             \<or> (ETFHoldingMetrics.currentValue a = ETFHoldingMetrics.currentValue b \<and> Q a b))
      (holdings (calculatePortfolioMetrics clock portfolio priceData))"
    by (simp add: hs)
  have 1: "sorted_wrt (\<lambda>a b. ETFHoldingMetrics.currentValue a \<ge> ETFHoldingMetrics.currentValue b)
             (holdings (calculatePortfolioMetrics clock portfolio priceData))"
    by (rule sorted_wrt_mono_rel [OF _ srt]) auto
  have 2: "sorted_wrt
          (\<lambda>a b. ETFHoldingMetrics.currentValue a = ETFHoldingMetrics.currentValue b \<longrightarrow> Q a b)
          (holdings (calculatePortfolioMetrics clock portfolio priceData))"
    by (rule sorted_wrt_mono_rel [OF _ srt]) auto
  show ?thesis
    using 1 2 by (simp add: Let_def Q_def syms_def ps_def)
qed

lemma example_holdings:
  "map (\<lambda>h. (ETFHoldingMetrics.etfSymbol h, ETFHoldingMetrics.currentValue h))
     (holdings (calculatePortfolioMetrics exampleClock (examplePortfolio examplePurchases) exampleQuotes))
   = [(''BND'', 2000), (''QQQ'', 1000), (''VOO'', 1000)]"
  by (simp add: calculatePortfolioMetrics_def examplePortfolio_def examplePurchases_def
        exampleQuotes_def examplePurchase_def exampleQuote_def Let_def groupBySymbol_def
        groupStep_def Map_get_def holdingStep_def calculateETFHoldingMetrics_def Array_sort_def)

theorem holdings_sorted_descending_stable_witness:
  "map (\<lambda>h. (ETFHoldingMetrics.etfSymbol h, ETFHoldingMetrics.currentValue h))
     (holdings (calculatePortfolioMetrics exampleClock (examplePortfolio examplePurchases) exampleQuotes))
   = [(''BND'', 2000), (''QQQ'', 1000), (''VOO'', 1000)]
   \<and> firstIndexOf ''QQQ'' (map Purchase.etfSymbol examplePurchases)
       < firstIndexOf ''VOO'' (map Purchase.etfSymbol examplePurchases)
   \<and> sorted_wrt (\<lambda>a b. ETFHoldingMetrics.currentValue a \<ge> ETFHoldingMetrics.currentValue b)
       (holdings (calculatePortfolioMetrics exampleClock (examplePortfolio examplePurchases) exampleQuotes))"
  using holdings_sorted_descending_stable
          [of exampleClock "examplePortfolio examplePurchases" exampleQuotes]
        example_holdings
  by (simp add: Let_def firstIndexOf_def examplePurchases_def examplePurchase_def)

section \<open>The price cache: properties\<close>

lemma getCachedPrice_unfold:
  "getCachedPrice clock stored symbol' =
     (case getPriceCache stored (trim (toUpperCase symbol')) of
        None \<Rightarrow> None
      | Some entry \<Rightarrow>
          Some \<lparr> price = ETFCacheEntry.currentPrice entry,
                 stale = (now clock - getTime clock (ETFCacheEntry.lastUpdated entry)
                            > getCurrentCacheTTL clock) \<rparr>)"
  by (simp add: getCachedPrice_def Let_def split: option.split)

lemma isMarketOpen_session: "isMarketOpen clock \<longleftrightarrow> spec_marketSession clock = MARKET_HOURS"
  by (simp add: isMarketOpen_def spec_marketSession_def Let_def)

lemma ttl_agrees:
  assumes "(localDay clock = 0 \<or> localDay clock = 6) \<longleftrightarrow> (easternDay clock = 0 \<or> easternDay clock = 6)"
  shows "getCurrentCacheTTL clock = spec_currentTTL clock"
  using assms
  by (auto simp: getCurrentCacheTTL_def spec_currentTTL_def spec_marketSession_def
        isMarketOpen_def Let_def CACHE_TTL_MARKET_HOURS_def CACHE_TTL_AFTER_HOURS_def
        CACHE_TTL_CLOSED_def)

text \<open>
  Claim C5 says that an entry written during market hours is stale six minutes later.
  The TTL is chosen when the entry is read, from the session at that moment: an entry
  written at 15:58 New York time on a Friday and read at 16:04 is six minutes old, the
  market has closed, the TTL is 30 minutes, and the entry is fresh.
\<close>

theorem cachedPrice_written_in_market_hours_counterexample:
  "isMarketOpen (clockAt 1772830680000 ''2026-03-06T20:58:00.000Z'' 5 5 15 58)
   \<and> getCachedPrice
        (clockAt (1772830680000 + 6 * 60 * 1000) ''2026-03-06T21:04:00.000Z'' 5 5 16 4)
        (Some (updatePriceCache (clockAt 1772830680000 ''2026-03-06T20:58:00.000Z'' 5 5 15 58)
                 None ''SPY'' (exampleQuote ''SPY'' 450 12)))
        ''SPY''
       = Some \<lparr> price = 450, stale = False \<rparr>"
  by (simp add: getCachedPrice_unfold updatePriceCache_def getPriceCache_def Let_def
        getCurrentCacheTTL_def isMarketOpen_def clockAt_def exampleGetTime_def exampleQuote_def
        trim_def toUpperCase_def toUpperChar_def isWhiteSpace_def
        CACHE_TTL_MARKET_HOURS_def CACHE_TTL_AFTER_HOURS_def CACHE_TTL_CLOSED_def)

text \<open>
  Outside market hours \<open>getCurrentCacheTTL\<close> tells a weekend from a weekday by
  \<open>new Date().getDay()\<close>, the day in the browser's time zone, while \<open>isMarketOpen\<close> uses the
  day in New York. At 20:00 on a Friday in New York it is Saturday in Berlin: there an
  entry that is 45 minutes old is fresh, although the after-hours TTL is 30 minutes.
\<close>

lemma cachedPrice_local_weekend_example:
  "spec_marketSession (clockAt 1772845200000 ''2026-03-07T01:00:00.000Z'' 6 5 20 0) = AFTER_HOURS
   \<and> 1772845200000 - exampleGetTime ''2026-03-07T00:15:00.000Z''
        > spec_currentTTL (clockAt 1772845200000 ''2026-03-07T01:00:00.000Z'' 6 5 20 0)
   \<and> getCachedPrice (clockAt 1772845200000 ''2026-03-07T01:00:00.000Z'' 6 5 20 0)
        (Some (updatePriceCache (clockAt 1772842500000 ''2026-03-07T00:15:00.000Z'' 6 5 19 15)
                 None ''SPY'' (exampleQuote ''SPY'' 450 12)))
        ''SPY''
       = Some \<lparr> price = 450, stale = False \<rparr>"
  by (simp add: getCachedPrice_unfold updatePriceCache_def getPriceCache_def Let_def
        getCurrentCacheTTL_def isMarketOpen_def clockAt_def exampleGetTime_def exampleQuote_def
        trim_def toUpperCase_def toUpperChar_def isWhiteSpace_def
        spec_marketSession_def spec_currentTTL_def
        CACHE_TTL_MARKET_HOURS_def CACHE_TTL_AFTER_HOURS_def CACHE_TTL_CLOSED_def)

text \<open>
  Claim C5, amended. \<open>getCachedPrice\<close> returns nothing for a symbol that is not in the
  cache; otherwise it returns the cached price and \<open>stale = (now - lastUpdated) > TTL\<close>,
  where the TTL is chosen from the clock at the time of the read: 5 minutes when the
  US-Eastern time is a weekday from 09:30 to before 16:00, so that an entry read while the
  market is open is fresh at the age of 4 minutes and stale at the age of 6 minutes; and,
  when the browser's local day is a Saturday or Sunday exactly when the US-Eastern day is,
  60 minutes on Saturday and Sunday and 30 minutes on a weekday outside market hours.
  \<open>isCacheStale\<close> is true exactly when the entry is absent or stale.
\<close>

theorem cachedPrice_staleness_at_read_time:
  "(getPriceCache stored (trim (toUpperCase symbol')) = None \<longrightarrow>
      getCachedPrice clock stored symbol' = None)
   \<and> (\<forall>entry. getPriceCache stored (trim (toUpperCase symbol')) = Some entry \<longrightarrow>
        getCachedPrice clock stored symbol'
          = Some \<lparr> price = ETFCacheEntry.currentPrice entry,
                   stale = (now clock - getTime clock (ETFCacheEntry.lastUpdated entry)
                              > getCurrentCacheTTL clock) \<rparr>
        \<and> (isMarketOpen clock \<and>
             now clock - getTime clock (ETFCacheEntry.lastUpdated entry) = 4 * 60 * 1000 \<longrightarrow>
             getCachedPrice clock stored symbol'
               = Some \<lparr> price = ETFCacheEntry.currentPrice entry, stale = False \<rparr>)
        \<and> (isMarketOpen clock \<and>
             now clock - getTime clock (ETFCacheEntry.lastUpdated entry) = 6 * 60 * 1000 \<longrightarrow>
             getCachedPrice clock stored symbol'
               = Some \<lparr> price = ETFCacheEntry.currentPrice entry, stale = True \<rparr>))
   \<and> (spec_marketSession clock = MARKET_HOURS \<longrightarrow> getCurrentCacheTTL clock = 5 * 60 * 1000)
   \<and> (((localDay clock = 0 \<or> localDay clock = 6)
          \<longleftrightarrow> (easternDay clock = 0 \<or> easternDay clock = 6)) \<longrightarrow>
        getCurrentCacheTTL clock = spec_currentTTL clock)
   \<and> (isCacheStale clock stored symbol' \<longleftrightarrow>
        (getCachedPrice clock stored symbol' = None
         \<or> (\<exists>cached. getCachedPrice clock stored symbol' = Some cached \<and> stale cached)))"
proof -
  have open_ttl: "getCurrentCacheTTL clock = 5 * 60 * 1000" if "isMarketOpen clock"
    using that by (simp add: getCurrentCacheTTL_def CACHE_TTL_MARKET_HOURS_def)
  have 1: "getPriceCache stored (trim (toUpperCase symbol')) = None \<longrightarrow>
             getCachedPrice clock stored symbol' = None"
    by (simp add: getCachedPrice_unfold)
  have 2: "\<forall>entry. getPriceCache stored (trim (toUpperCase symbol')) = Some entry \<longrightarrow>
        getCachedPrice clock stored symbol'
          = Some \<lparr> price = ETFCacheEntry.currentPrice entry,
                   stale = (now clock - getTime clock (ETFCacheEntry.lastUpdated entry)
                              > getCurrentCacheTTL clock) \<rparr>
        \<and> (isMarketOpen clock \<and>
             now clock - getTime clock (ETFCacheEntry.lastUpdated entry) = 4 * 60 * 1000 \<longrightarrow>
             getCachedPrice clock stored symbol'
               = Some \<lparr> price = ETFCacheEntry.currentPrice entry, stale = False \<rparr>)
        \<and> (isMarketOpen clock \<and>
             now clock - getTime clock (ETFCacheEntry.lastUpdated entry) = 6 * 60 * 1000 \<longrightarrow>
             getCachedPrice clock stored symbol'
               = Some \<lparr> price = ETFCacheEntry.currentPrice entry, stale = True \<rparr>)"
    by (simp add: getCachedPrice_unfold open_ttl)
  have 3: "spec_marketSession clock = MARKET_HOURS \<longrightarrow> getCurrentCacheTTL clock = 5 * 60 * 1000"
    using open_ttl by (simp add: isMarketOpen_session)
  have 4: "((localDay clock = 0 \<or> localDay clock = 6)
          \<longleftrightarrow> (easternDay clock = 0 \<or> easternDay clock = 6)) \<longrightarrow>
        getCurrentCacheTTL clock = spec_currentTTL clock"
    using ttl_agrees by blast
  have 5: "isCacheStale clock stored symbol' \<longleftrightarrow>
        (getCachedPrice clock stored symbol' = None
         \<or> (\<exists>cached. getCachedPrice clock stored symbol' = Some cached \<and> stale cached))"
    by (cases "getCachedPrice clock stored symbol'") (simp_all add: isCacheStale_def)
  show ?thesis using 1 2 3 4 5 by blast
qed

theorem cachedPrice_staleness_at_read_time_witness:
  "getCachedPrice (clockAt 1772830680000 ''2026-03-06T20:58:00.000Z'' 5 5 15 58) None ''spy'' = None
   \<and> isCacheStale (clockAt 1772830680000 ''2026-03-06T20:58:00.000Z'' 5 5 15 58) None ''spy''
   \<and> getCachedPrice (clockAt (1772827080000 + 4 * 60 * 1000) ''2026-03-06T20:02:00.000Z'' 5 5 15 2)
        (Some (updatePriceCache (clockAt 1772827080000 ''2026-03-06T19:58:00.000Z'' 5 5 14 58)
                 None ''spy '' exampleSpy))
        ''SPY''
       = Some \<lparr> price = 450, stale = False \<rparr>
   \<and> getCachedPrice (clockAt (1772827080000 + 6 * 60 * 1000) ''2026-03-06T20:04:00.000Z'' 5 5 15 4)
        (Some (updatePriceCache (clockAt 1772827080000 ''2026-03-06T19:58:00.000Z'' 5 5 14 58)
                 None ''spy '' exampleSpy))
        ''SPY''
       = Some \<lparr> price = 450, stale = True \<rparr>
   \<and> getCurrentCacheTTL (clockAt 1772830680000 ''2026-03-06T20:58:00.000Z'' 5 5 15 58) = 5 * 60 * 1000
   \<and> getCurrentCacheTTL (clockAt 1772831040000 ''2026-03-06T21:04:00.000Z'' 5 5 16 4) = 30 * 60 * 1000
   \<and> getCurrentCacheTTL (clockAt 1772845200000 ''2026-03-07T01:00:00.000Z'' 6 6 20 0) = 60 * 60 * 1000"
proof -
  let ?written = "Some (updatePriceCache (clockAt 1772827080000 ''2026-03-06T19:58:00.000Z'' 5 5 14 58)
                    None ''spy '' exampleSpy)"
  let ?entry = "\<lparr> etf = \<lparr> ETF.symbol = ''SPY'', ETF.name = [], exchange = None, currency = ''USD'' \<rparr>,
               ETFCacheEntry.currentPrice = 450, ETFCacheEntry.previousClose = 450,
               ETFCacheEntry.lastUpdated = ''2026-03-06T19:58:00.000Z'',
               ytdStartPrice = 450 / (1 + 12 / 100) \<rparr>"
  let ?at4 = "clockAt (1772827080000 + 4 * 60 * 1000) ''2026-03-06T20:02:00.000Z'' 5 5 15 2"
  let ?at6 = "clockAt (1772827080000 + 6 * 60 * 1000) ''2026-03-06T20:04:00.000Z'' 5 5 15 4"
  have sym: "trim (toUpperCase ''spy'') = ''SPY''" "trim (toUpperCase ''spy '') = ''SPY''"
    "trim (toUpperCase ''SPY'') = ''SPY''"
    by (simp_all add: trim_def toUpperCase_def toUpperChar_def isWhiteSpace_def)
  have absent: "getPriceCache None (trim (toUpperCase ''spy'')) = None"
    by (simp add: getPriceCache_def)
  have present: "getPriceCache ?written (trim (toUpperCase ''SPY'')) = Some ?entry"
    by (simp add: sym getPriceCache_def updatePriceCache_def Let_def clockAt_def exampleSpy_def
          exampleQuote_def)
  have open4: "isMarketOpen ?at4 \<and>
               now ?at4 - getTime ?at4 (ETFCacheEntry.lastUpdated ?entry) = 4 * 60 * 1000"
    by (simp add: isMarketOpen_def clockAt_def exampleGetTime_def)
  have open6: "isMarketOpen ?at6 \<and>
               now ?at6 - getTime ?at6 (ETFCacheEntry.lastUpdated ?entry) = 6 * 60 * 1000"
    by (simp add: isMarketOpen_def clockAt_def exampleGetTime_def)
  note t1 = cachedPrice_staleness_at_read_time
    [of None "''spy''" "clockAt 1772830680000 ''2026-03-06T20:58:00.000Z'' 5 5 15 58"]
  note t2 = cachedPrice_staleness_at_read_time [of ?written "''SPY''" ?at4]
  note t3 = cachedPrice_staleness_at_read_time [of ?written "''SPY''" ?at6]
  note t4 = cachedPrice_staleness_at_read_time
    [of None "''spy''" "clockAt 1772831040000 ''2026-03-06T21:04:00.000Z'' 5 5 16 4"]
  note t5 = cachedPrice_staleness_at_read_time
    [of None "''spy''" "clockAt 1772845200000 ''2026-03-07T01:00:00.000Z'' 6 6 20 0"]
  have 1: "getCachedPrice (clockAt 1772830680000 ''2026-03-06T20:58:00.000Z'' 5 5 15 58) None ''spy'' = None"
    using t1 absent by blast
  have 2: "isCacheStale (clockAt 1772830680000 ''2026-03-06T20:58:00.000Z'' 5 5 15 58) None ''spy''"
    using t1 1 by blast
  have "getCachedPrice ?at4 ?written ''SPY''
          = Some \<lparr> price = ETFCacheEntry.currentPrice ?entry, stale = False \<rparr>"
    using t2 present open4 by blast
  then have 3: "getCachedPrice ?at4 ?written ''SPY'' = Some \<lparr> price = 450, stale = False \<rparr>"
    by simp
  have "getCachedPrice ?at6 ?written ''SPY''
          = Some \<lparr> price = ETFCacheEntry.currentPrice ?entry, stale = True \<rparr>"
    using t3 present open6 by blast
  then have 4: "getCachedPrice ?at6 ?written ''SPY'' = Some \<lparr> price = 450, stale = True \<rparr>"
    by simp
  have 5: "getCurrentCacheTTL (clockAt 1772830680000 ''2026-03-06T20:58:00.000Z'' 5 5 15 58) = 5 * 60 * 1000"
    using t1 by (simp add: spec_marketSession_def clockAt_def)
  have 6: "getCurrentCacheTTL (clockAt 1772831040000 ''2026-03-06T21:04:00.000Z'' 5 5 16 4) = 30 * 60 * 1000"
    using t4 by (simp add: spec_currentTTL_def spec_marketSession_def clockAt_def)
  have 7: "getCurrentCacheTTL (clockAt 1772845200000 ''2026-03-07T01:00:00.000Z'' 6 6 20 0) = 60 * 60 * 1000"
    using t5 by (simp add: spec_currentTTL_def spec_marketSession_def clockAt_def)
  show ?thesis using 1 2 3 4 5 6 7 by blast
qed

section \<open>The portfolio service: properties\<close>

lemma totalCost_invariant:
  "Purchase.totalCost p = numPlus (numTimes (Purchase.shares p) (Purchase.pricePerShare p)) (Purchase.fees p)
   \<Longrightarrow> spec_totalCostInvariant p
         = (Purchase.shares p \<noteq> NaN \<and> Purchase.pricePerShare p \<noteq> NaN \<and> Purchase.fees p \<noteq> NaN)"
  by (simp add: spec_totalCostInvariant_def numPlus_def numTimes_def split: number.splits)

lemma findIndex_Some:
  "findIndex P xs = Some i \<Longrightarrow> i < length xs \<and> P (xs ! i) \<and> (\<forall>j<i. \<not> P (xs ! j))"
proof (induction xs arbitrary: i)
  case Nil
  then show ?case by simp
next
  case (Cons x xs)
  show ?case
  proof (cases "P x")
    case True
    with Cons.prems show ?thesis by simp
  next
    case False
    with Cons.prems obtain k where k: "findIndex P xs = Some k" "i = Suc k"
      by (auto split: option.splits)
    from Cons.IH [OF k(1)] False k(2) show ?thesis
      by (auto simp: less_Suc_eq_0_disj)
  qed
qed

text \<open>
  The purchase that \<open>addPurchase\<close> appends and the purchase that \<open>updatePurchase\<close> puts in
  place of the edited one carry the total cost that JavaScript computes for
  \<open>shares * pricePerShare + fees\<close>, where shares, price and fees are the values parsed from
  the form, or, in an edit, the stored values for the fields the edit leaves out. Neither
  operation takes a total cost from its caller, and the stored total cost of the edited
  purchase is not read. \<open>addPurchase\<close> replaces a fee that does not parse by 0;
  \<open>updatePurchase\<close> stores what \<open>parseFloat\<close> returned.
\<close>

lemma totalCost_recomputed:
  "(addPurchase clock browser portfolio form = Inr added \<longrightarrow>
      (\<exists>p. Portfolio.purchases added = Portfolio.purchases portfolio @ [p]
           \<and> Purchase.totalCost p
               = numPlus (numTimes (Purchase.shares p) (Purchase.pricePerShare p)) (Purchase.fees p)
           \<and> Purchase.shares p = parseFloat browser (PurchaseFormData.shares form)
           \<and> Purchase.pricePerShare p = parseFloat browser (PurchaseFormData.pricePerShare form)
           \<and> Purchase.fees p = orZero (parseFloat browser (PurchaseFormData.fees form))))
   \<and> (updatePurchase clock browser portfolio pid patch = Inr updated \<longrightarrow>
      (\<exists>i p. i < length (Portfolio.purchases portfolio)
           \<and> Purchase.id (Portfolio.purchases portfolio ! i) = pid
           \<and> Portfolio.purchases updated = (Portfolio.purchases portfolio)[i := p]
           \<and> Purchase.totalCost p
               = numPlus (numTimes (Purchase.shares p) (Purchase.pricePerShare p)) (Purchase.fees p)
           \<and> Purchase.shares p =
               (case PartialPurchaseFormData.shares patch of
                  Some s \<Rightarrow> parseFloat browser s
                | None \<Rightarrow> Purchase.shares (Portfolio.purchases portfolio ! i))
           \<and> Purchase.pricePerShare p =
               (case PartialPurchaseFormData.pricePerShare patch of
                  Some s \<Rightarrow> parseFloat browser s
                | None \<Rightarrow> Purchase.pricePerShare (Portfolio.purchases portfolio ! i))
           \<and> Purchase.fees p =
               (case PartialPurchaseFormData.fees patch of
                  Some s \<Rightarrow> parseFloat browser s
                | None \<Rightarrow> Purchase.fees (Portfolio.purchases portfolio ! i))))"
proof (intro conjI impI)
  assume "addPurchase clock browser portfolio form = Inr added"
  then show "\<exists>p. Portfolio.purchases added = Portfolio.purchases portfolio @ [p]
           \<and> Purchase.totalCost p
               = numPlus (numTimes (Purchase.shares p) (Purchase.pricePerShare p)) (Purchase.fees p)
           \<and> Purchase.shares p = parseFloat browser (PurchaseFormData.shares form)
           \<and> Purchase.pricePerShare p = parseFloat browser (PurchaseFormData.pricePerShare form)
           \<and> Purchase.fees p = orZero (parseFloat browser (PurchaseFormData.fees form))"
    by (cases "savePortfolio browser")
       (auto simp: addPurchase_def Let_def)
next
  let ?ps = "Portfolio.purchases portfolio"
  assume u: "updatePurchase clock browser portfolio pid patch = Inr updated"
  then obtain i where i: "findIndex (\<lambda>p. Purchase.id p = pid) ?ps = Some i"
    by (cases "findIndex (\<lambda>p. Purchase.id p = pid) ?ps") (auto simp: updatePurchase_def)
  from findIndex_Some [OF i]
  have range: "i < length ?ps" and found: "Purchase.id (?ps ! i) = pid"
    by auto
  from u have saved: "savePortfolio browser = None"
    by (cases "savePortfolio browser") (auto simp: updatePurchase_def i Let_def)
  obtain p where p: "Portfolio.purchases updated = ?ps[i := p]"
    and cost: "Purchase.totalCost p
                 = numPlus (numTimes (Purchase.shares p) (Purchase.pricePerShare p)) (Purchase.fees p)"
    and sh: "Purchase.shares p =
               (case PartialPurchaseFormData.shares patch of
                  Some s \<Rightarrow> parseFloat browser s
                | None \<Rightarrow> Purchase.shares (?ps ! i))"
    and pr: "Purchase.pricePerShare p =
               (case PartialPurchaseFormData.pricePerShare patch of
                  Some s \<Rightarrow> parseFloat browser s
                | None \<Rightarrow> Purchase.pricePerShare (?ps ! i))"
    and fe: "Purchase.fees p =
               (case PartialPurchaseFormData.fees patch of
                  Some s \<Rightarrow> parseFloat browser s
                | None \<Rightarrow> Purchase.fees (?ps ! i))"
    using u by (auto simp: updatePurchase_def i saved Let_def)
  from cost range found p sh pr fe
  show "\<exists>i p. i < length (Portfolio.purchases portfolio)
           \<and> Purchase.id (Portfolio.purchases portfolio ! i) = pid
           \<and> Portfolio.purchases updated = (Portfolio.purchases portfolio)[i := p]
           \<and> Purchase.totalCost p
               = numPlus (numTimes (Purchase.shares p) (Purchase.pricePerShare p)) (Purchase.fees p)
           \<and> Purchase.shares p =
               (case PartialPurchaseFormData.shares patch of
                  Some s \<Rightarrow> parseFloat browser s
                | None \<Rightarrow> Purchase.shares (Portfolio.purchases portfolio ! i))
           \<and> Purchase.pricePerShare p =
               (case PartialPurchaseFormData.pricePerShare patch of
                  Some s \<Rightarrow> parseFloat browser s
                | None \<Rightarrow> Purchase.pricePerShare (Portfolio.purchases portfolio ! i))
           \<and> Purchase.fees p =
               (case PartialPurchaseFormData.fees patch of
                  Some s \<Rightarrow> parseFloat browser s
                | None \<Rightarrow> Purchase.fees (Portfolio.purchases portfolio ! i))"
    by blast
qed

lemma example_add:
  "addPurchase exampleClock exampleBrowser (exampleStoredPortfolio []) exampleForm
     = Inr ((exampleStoredPortfolio
              [exampleStoredPurchase (Num 10) (Num 450) (Num 0) (Num 4500) ''2026-03-02T15:00:00.000Z''])
            \<lparr> Portfolio.updatedAt := ''2026-03-02T15:00:00.000Z'' \<rparr>)"
  by (simp add: addPurchase_def Let_def exampleClock_def exampleBrowser_def
        exampleStoredPortfolio_def exampleForm_def exampleStoredPurchase_def exampleParseFloat_def
        savePortfolio_def orZero_def numPlus_def numTimes_def
        trim_def toUpperCase_def toUpperChar_def isWhiteSpace_def)

lemma example_update:
  "updatePurchase exampleClock exampleBrowser
     (exampleStoredPortfolio
        [exampleStoredPurchase (Num 10) (Num 450) (Num 0) (Num 4500) ''2026-02-01T10:00:00.000Z''])
     ''550e8400-e29b-41d4-a716-446655440000'' examplePatch
     = Inr ((exampleStoredPortfolio
              [exampleStoredPurchase (Num 15) (Num 450) (Num (495 / 100)) (Num (675495 / 100))
                 ''2026-03-02T15:00:00.000Z''])
            \<lparr> Portfolio.updatedAt := ''2026-03-02T15:00:00.000Z'' \<rparr>)
   \<and> spec_totalCostInvariant
        (exampleStoredPurchase (Num 15) (Num 450) (Num (495 / 100)) (Num (675495 / 100))
           ''2026-03-02T15:00:00.000Z'')"
  by (simp add: updatePurchase_def Let_def exampleClock_def exampleBrowser_def
        exampleStoredPortfolio_def examplePatch_def exampleStoredPurchase_def exampleParseFloat_def
        savePortfolio_def numPlus_def numTimes_def spec_totalCostInvariant_def)

text \<open>
  Claim C7 says that \<open>totalCost == shares * pricePerShare + fees\<close> holds of every purchase
  that an add or an edit writes. An edit that clears the fees field breaks it: the edit
  dialog accepts a blank fees field and passes the form on, \<open>updatePurchase\<close> stores
  \<open>parseFloat('')\<close>, which is \<open>NaN\<close>, as the fees, and the total cost it computes from it is
  \<open>NaN\<close>. The purchase of 10 shares at 450, stored with fees 0 and total cost 4500, is
  written back with fees \<open>NaN\<close> and total cost \<open>NaN\<close>. \<open>addPurchase\<close> with the same blank
  field stores fees 0 and total cost 4500, since it reads the fees as
  \<open>parseFloat(data.fees) || 0\<close>.
\<close>

theorem updatePurchase_blank_fees:
  "updatePurchase exampleClock exampleBrowser
     (exampleStoredPortfolio
        [exampleStoredPurchase (Num 10) (Num 450) (Num 0) (Num 4500) ''2026-02-01T10:00:00.000Z''])
     ''550e8400-e29b-41d4-a716-446655440000'' exampleEdit
     = Inr ((exampleStoredPortfolio
              [exampleStoredPurchase (Num 10) (Num 450) NaN NaN ''2026-03-02T15:00:00.000Z''])
            \<lparr> Portfolio.updatedAt := ''2026-03-02T15:00:00.000Z'' \<rparr>)
   \<and> \<not> spec_totalCostInvariant
         (exampleStoredPurchase (Num 10) (Num 450) NaN NaN ''2026-03-02T15:00:00.000Z'')
   \<and> PurchaseFormData.fees exampleForm = ''''
   \<and> addPurchase exampleClock exampleBrowser (exampleStoredPortfolio []) exampleForm
     = Inr ((exampleStoredPortfolio
              [exampleStoredPurchase (Num 10) (Num 450) (Num 0) (Num 4500) ''2026-03-02T15:00:00.000Z''])
            \<lparr> Portfolio.updatedAt := ''2026-03-02T15:00:00.000Z'' \<rparr>)
   \<and> spec_totalCostInvariant
        (exampleStoredPurchase (Num 10) (Num 450) (Num 0) (Num 4500) ''2026-03-02T15:00:00.000Z'')"
  by (simp add: updatePurchase_def addPurchase_def Let_def exampleClock_def exampleBrowser_def
        exampleStoredPortfolio_def exampleEdit_def exampleForm_def exampleStoredPurchase_def
        exampleParseFloat_def savePortfolio_def orZero_def numPlus_def numTimes_def
        spec_totalCostInvariant_def
        trim_def toUpperCase_def toUpperChar_def isWhiteSpace_def)

section \<open>Import: properties\<close>

lemma invalid_string_iff:
  "(\<not> truthy v \<or> typeof v \<noteq> ''string'') \<longleftrightarrow> spec_missingString v"
  by (auto simp: truthy_def typeof_def spec_missingString_def split: option.splits json.splits)

lemma invalid_number_iff:
  "(typeof v \<noteq> ''number'' \<or> numberValue v \<le> 0) \<longleftrightarrow> \<not> spec_positiveNumber v"
  by (auto simp: typeof_def numberValue_def spec_positiveNumber_def
        split: option.splits json.splits)

lemma validatePurchase_iff:
  "validatePurchase p \<noteq> None \<longleftrightarrow> spec_invalidPurchase p"
proof (cases "p = JNull")
  case True
  then show ?thesis
    by (simp add: validatePurchase_def spec_invalidPurchase_def getProp_def spec_missingString_def)
next
  case False
  then show ?thesis
    unfolding validatePurchase_def spec_invalidPurchase_def invalid_string_iff invalid_number_iff
    by simp
qed

lemma validatePurchase_validation_error:
  "validatePurchase p = Some e \<Longrightarrow> isValidationError e"
  by (auto simp: validatePurchase_def isValidationError_def split: if_splits)

lemma validatePurchases_iff:
  "validatePurchases ps \<noteq> None \<longleftrightarrow> list_ex spec_invalidPurchase ps"
proof (induction ps)
  case Nil
  then show ?case by simp
next
  case (Cons p ps)
  show ?case
  proof (cases "validatePurchase p")
    case None
    with validatePurchase_iff [of p] have "\<not> spec_invalidPurchase p" by simp
    with None Cons show ?thesis by simp
  next
    case (Some e)
    with validatePurchase_iff [of p] have "spec_invalidPurchase p" by simp
    with Some show ?thesis by simp
  qed
qed

lemma validatePurchases_validation_error:
  "validatePurchases ps = Some e \<Longrightarrow> isValidationError e"
  by (induction ps) (auto split: option.splits dest: validatePurchase_validation_error)


lemma orElse_truthy: "truthy a \<Longrightarrow> Some (orElse a b) = a"
  by (cases a) (simp_all add: orElse_def truthy_def)

lemma orElse_falsy: "\<not> truthy a \<Longrightarrow> orElse a b = b"
  by (cases a) (simp_all add: orElse_def)

lemma Map_get_Map_set: "Map_get (Map_set m k v) k' = (if k' = k then Some v else Map_get m k')"
  by (induction m) (auto simp: Map_get_def)

lemma backfillPurchase_props:
  "getProp (backfillPurchase now' p) ''createdAt''
     = Some (orElse (getProp p ''createdAt'') (JString now'))"
  "getProp (backfillPurchase now' p) ''updatedAt''
     = Some (orElse (getProp p ''updatedAt'') (JString now'))"
  by (simp_all add: backfillPurchase_def getProp_def Let_def Map_get_Map_set)

lemma backfillPurchase_timestamps:
  "(truthy (getProp p k) \<longrightarrow> Some (orElse (getProp p k) (JString now')) = getProp p k)
   \<and> (\<not> truthy (getProp p k) \<longrightarrow> orElse (getProp p k) (JString now') = JString now')"
  by (simp add: orElse_truthy orElse_falsy)

lemma getProp_JObject: "getProp (JObject members) k = Map_get members k"
  by (simp add: getProp_def)

lemma falsy_has_no_members: "\<not> truthy (Some data) \<Longrightarrow> getProp data k = None"
  by (cases data) (simp_all add: truthy_def getProp_def)

lemma import_rejects:
  assumes "spec_rejects (JSON_parse browser jsonText)"
  shows "\<exists>e. importPortfolio clock browser jsonText = Inl e \<and> isValidationError e"
proof (cases "JSON_parse browser jsonText")
  case None
  then show ?thesis
    by (simp add: importPortfolio_def truthy_def isValidationError_def)
next
  case (Some data)
  show ?thesis
  proof (cases "truthy (Some data)")
    case False
    then show ?thesis
      by (simp add: importPortfolio_def Some isValidationError_def)
  next
    case True
    note data = this
    show ?thesis
    proof (cases "spec_missingString (getProp data ''id'')")
      case True
      then show ?thesis
        using data
        by (simp add: importPortfolio_def Some isValidationError_def
              invalid_string_iff [symmetric])
    next
      case False
      note id = this
      show ?thesis
      proof (cases "spec_missingString (getProp data ''name'')")
        case True
        then show ?thesis
          using data id
          by (simp add: importPortfolio_def Some isValidationError_def
                invalid_string_iff [symmetric])
      next
        case False
        note name = this
        have head: "importPortfolio clock browser jsonText =
           (case getProp data ''purchases'' of
              Some (JArray dataPurchases) \<Rightarrow>
                (case validatePurchases dataPurchases of
                   Some e \<Rightarrow> Inl e
                 | None \<Rightarrow>
                     (case savePortfolio browser of
                        Some e \<Rightarrow> Inl e
                      | None \<Rightarrow> Inr (importedPortfolio (nowISO clock) data dataPurchases)))
            | _ \<Rightarrow> Inl (InvalidPortfolio ''purchases must be an array''))"
          using data id name
          by (simp add: importPortfolio_def Some Let_def importedPortfolio_def
                invalid_string_iff [symmetric] split: option.split json.split)
        show ?thesis
        proof (cases "\<exists>ps. getProp data ''purchases'' = Some (JArray ps)")
          case False
          then show ?thesis
            unfolding head
            by (auto simp: isValidationError_def split: option.split json.split)
        next
          case True
          then obtain ps where ps: "getProp data ''purchases'' = Some (JArray ps)" by blast
          with assms id name have "list_ex spec_invalidPurchase ps"
            by (simp add: spec_rejects_def Some)
          then obtain e where e: "validatePurchases ps = Some e"
            using validatePurchases_iff [of ps] by auto
          then show ?thesis
            unfolding head
            by (simp add: ps validatePurchases_validation_error)
        qed
      qed
    qed
  qed
qed

lemma import_accepts:
  assumes "\<not> spec_rejects (JSON_parse browser jsonText)"
  shows "\<exists>data ps. JSON_parse browser jsonText = Some data
           \<and> getProp data ''purchases'' = Some (JArray ps)
           \<and> importPortfolio clock browser jsonText
               = (case savePortfolio browser of
                    Some e \<Rightarrow> Inl e
                  | None \<Rightarrow> Inr (importedPortfolio (nowISO clock) data ps))"
proof -
  from assms obtain data where Some: "JSON_parse browser jsonText = Some data"
    by (cases "JSON_parse browser jsonText") (auto simp: spec_rejects_def)
  from assms Some have id: "\<not> spec_missingString (getProp data ''id'')"
    and name: "\<not> spec_missingString (getProp data ''name'')"
    by (auto simp: spec_rejects_def)
  from assms Some obtain ps where ps: "getProp data ''purchases'' = Some (JArray ps)"
    and valid: "\<not> list_ex spec_invalidPurchase ps"
    by (auto simp: spec_rejects_def split: option.splits json.splits)
  have data: "truthy (Some data)"
  proof (rule ccontr)
    assume "\<not> truthy (Some data)"
    then have "getProp data ''id'' = None" by (rule falsy_has_no_members)
    with id show False by (simp add: spec_missingString_def)
  qed
  from valid have ok: "validatePurchases ps = None"
    using validatePurchases_iff [of ps] by auto
  have "importPortfolio clock browser jsonText
               = (case savePortfolio browser of
                    Some e \<Rightarrow> Inl e
                  | None \<Rightarrow> Inr (importedPortfolio (nowISO clock) data ps))"
    using data id name
    by (simp add: importPortfolio_def Some ps ok Let_def importedPortfolio_def
          invalid_string_iff [symmetric] split: option.split)
  with Some ps show ?thesis by blast
qed

text \<open>
  Claim C8. \<open>importPortfolio\<close> raises a validation error exactly when the document does
  not parse, its \<open>id\<close> or \<open>name\<close> is missing (absent, not a string, or empty), \<open>purchases\<close> is
  not a list, or some purchase is missing \<open>id\<close> or \<open>etfSymbol\<close> or has \<open>shares\<close> or
  \<open>pricePerShare\<close> that is not a positive number. A document that is accepted is returned
  (when the write to the storage succeeds) with \<open>updatedAt\<close> set to the current time, and
  with \<open>createdAt\<close> of the portfolio and \<open>createdAt\<close> and \<open>updatedAt\<close> of every purchase kept
  when present and set to the current time when missing: a missing timestamp never
  rejects the document.
\<close>

theorem import_validation:
  "((\<exists>e. importPortfolio clock browser jsonText = Inl e \<and> isValidationError e)
      \<longleftrightarrow> spec_rejects (JSON_parse browser jsonText))
   \<and> (\<not> spec_rejects (JSON_parse browser jsonText) \<and> setItemSucceeds browser \<longrightarrow>
        (\<exists>data ps imported.
           JSON_parse browser jsonText = Some data
           \<and> getProp data ''purchases'' = Some (JArray ps)
           \<and> importPortfolio clock browser jsonText = Inr imported
           \<and> getProp imported ''id'' = getProp data ''id''
           \<and> getProp imported ''name'' = getProp data ''name''
           \<and> getProp imported ''purchases''
               = Some (JArray (map (backfillPurchase (nowISO clock)) ps))
           \<and> getProp imported ''updatedAt'' = Some (JString (nowISO clock))
           \<and> getProp imported ''createdAt''
               = (if truthy (getProp data ''createdAt'') then getProp data ''createdAt''
                  else Some (JString (nowISO clock)))
           \<and> (\<forall>p\<in>set ps. \<forall>k\<in>{''createdAt'', ''updatedAt''}.
                  getProp (backfillPurchase (nowISO clock) p) k
                    = (if truthy (getProp p k) then getProp p k
                       else Some (JString (nowISO clock))))))"
proof (intro conjI impI)
  show "(\<exists>e. importPortfolio clock browser jsonText = Inl e \<and> isValidationError e)
      \<longleftrightarrow> spec_rejects (JSON_parse browser jsonText)"
  proof
    assume rej: "\<exists>e. importPortfolio clock browser jsonText = Inl e \<and> isValidationError e"
    show "spec_rejects (JSON_parse browser jsonText)"
    proof (rule ccontr)
      assume "\<not> spec_rejects (JSON_parse browser jsonText)"
      from import_accepts [OF this, of clock] rej show False
        by (auto simp: savePortfolio_def isValidationError_def split: if_splits)
    qed
  next
    assume "spec_rejects (JSON_parse browser jsonText)"
    then show "\<exists>e. importPortfolio clock browser jsonText = Inl e \<and> isValidationError e"
      by (rule import_rejects)
  qed
next
  assume a: "\<not> spec_rejects (JSON_parse browser jsonText) \<and> setItemSucceeds browser"
  then obtain data ps where parsed: "JSON_parse browser jsonText = Some data"
    and ps: "getProp data ''purchases'' = Some (JArray ps)"
    and res: "importPortfolio clock browser jsonText
                = Inr (importedPortfolio (nowISO clock) data ps)"
    using import_accepts [of browser jsonText clock] by (auto simp: savePortfolio_def)
  from a parsed have id: "\<not> spec_missingString (getProp data ''id'')"
    and name: "\<not> spec_missingString (getProp data ''name'')"
    by (auto simp: spec_rejects_def)
  have tid: "truthy (getProp data ''id'')" and tname: "truthy (getProp data ''name'')"
    using id name invalid_string_iff by blast+
  let ?imported = "importedPortfolio (nowISO clock) data ps"
  have 1: "getProp ?imported ''id'' = getProp data ''id''"
    and 2: "getProp ?imported ''name'' = getProp data ''name''"
    by (simp_all add: importedPortfolio_def getProp_JObject Map_get_def orElse_truthy tid tname)
  have 3: "getProp ?imported ''purchases'' = Some (JArray (map (backfillPurchase (nowISO clock)) ps))"
    and 4: "getProp ?imported ''updatedAt'' = Some (JString (nowISO clock))"
    by (simp_all add: importedPortfolio_def getProp_JObject Map_get_def)
  have 5: "getProp ?imported ''createdAt''
               = (if truthy (getProp data ''createdAt'') then getProp data ''createdAt''
                  else Some (JString (nowISO clock)))"
    by (simp add: importedPortfolio_def getProp_JObject Map_get_def
          orElse_truthy orElse_falsy)
  have 6: "\<forall>p\<in>set ps. \<forall>k\<in>{''createdAt'', ''updatedAt''}.
                  getProp (backfillPurchase (nowISO clock) p) k
                    = (if truthy (getProp p k) then getProp p k
                       else Some (JString (nowISO clock)))"
    by (simp add: backfillPurchase_props orElse_truthy orElse_falsy)
  from parsed ps res 1 2 3 4 5 6
  show "\<exists>data ps imported.
           JSON_parse browser jsonText = Some data
           \<and> getProp data ''purchases'' = Some (JArray ps)
           \<and> importPortfolio clock browser jsonText = Inr imported
           \<and> getProp imported ''id'' = getProp data ''id''
           \<and> getProp imported ''name'' = getProp data ''name''
           \<and> getProp imported ''purchases''
               = Some (JArray (map (backfillPurchase (nowISO clock)) ps))
           \<and> getProp imported ''updatedAt'' = Some (JString (nowISO clock))
           \<and> getProp imported ''createdAt''
               = (if truthy (getProp data ''createdAt'') then getProp data ''createdAt''
                  else Some (JString (nowISO clock)))
           \<and> (\<forall>p\<in>set ps. \<forall>k\<in>{''createdAt'', ''updatedAt''}.
                  getProp (backfillPurchase (nowISO clock) p) k
                    = (if truthy (getProp p k) then getProp p k
                       else Some (JString (nowISO clock))))"
    by blast
qed

lemma example_import_rejected:
  "importPortfolio exampleClock exampleBrowser ''<portfolio with zero shares>''
     = Inl (InvalidPurchase ''shares must be a positive number'')"
  by (simp add: importPortfolio_def exampleBrowser_def exampleJSONParse_def
        exampleBadDocument_def truthy_def typeof_def getProp_def Map_get_def
        validatePurchase_def numberValue_def)

lemma example_import_accepted:
  "importPortfolio exampleClock exampleBrowser ''<exported portfolio>''
     = Inr (JObject
         [(''id'', JString ''portfolio-1''),
          (''name'', JString ''My Portfolio''),
          (''purchases'',
           JArray
             [JObject
                [(''id'', JString ''p1''), (''etfSymbol'', JString ''VOO''),
                 (''purchaseDate'', JString ''2025-06-15''), (''shares'', JNumber 10),
                 (''pricePerShare'', JNumber 400), (''totalCost'', JNumber 4000),
                 (''fees'', JNumber 0), (''createdAt'', JString ''2025-06-15T09:00:00.000Z''),
                 (''updatedAt'', JString ''2026-03-02T15:00:00.000Z'')]]),
          (''etfCache'', JObject []),
          (''createdAt'', JString ''2026-03-02T15:00:00.000Z''),
          (''updatedAt'', JString ''2026-03-02T15:00:00.000Z''),
          (''version'', JNumber 1)])"
  by (simp add: importPortfolio_def exampleBrowser_def exampleJSONParse_def exampleClock_def
        exampleDocument_def truthy_def typeof_def getProp_def Map_get_def Let_def
        validatePurchase_def numberValue_def backfillPurchase_def orElse_def
        savePortfolio_def CURRENT_SCHEMA_VERSION_def)

theorem import_validation_witness:
  "spec_rejects (JSON_parse exampleBrowser ''<portfolio with zero shares>'')
   \<and> spec_rejects (JSON_parse exampleBrowser ''not JSON'')
   \<and> (\<exists>e. importPortfolio exampleClock exampleBrowser ''not JSON'' = Inl e \<and> isValidationError e)
   \<and> \<not> spec_rejects (JSON_parse exampleBrowser ''<exported portfolio>'')
   \<and> setItemSucceeds exampleBrowser
   \<and> (\<exists>imported.
         importPortfolio exampleClock exampleBrowser ''<exported portfolio>'' = Inr imported
         \<and> getProp imported ''createdAt'' = Some (JString ''2026-03-02T15:00:00.000Z''))"
proof -
  have r1: "spec_rejects (JSON_parse exampleBrowser ''<portfolio with zero shares>'')"
    by (simp add: spec_rejects_def exampleBrowser_def exampleJSONParse_def exampleBadDocument_def
          spec_missingString_def spec_invalidPurchase_def spec_positiveNumber_def
          getProp_def Map_get_def)
  have r2: "spec_rejects (JSON_parse exampleBrowser ''not JSON'')"
    by (simp add: spec_rejects_def exampleBrowser_def exampleJSONParse_def)
  have a: "\<not> spec_rejects (JSON_parse exampleBrowser ''<exported portfolio>'')"
    by (simp add: spec_rejects_def exampleBrowser_def exampleJSONParse_def exampleDocument_def
          spec_missingString_def spec_invalidPurchase_def spec_positiveNumber_def
          getProp_def Map_get_def)
  have w: "setItemSucceeds exampleBrowser"
    by (simp add: exampleBrowser_def)
  from import_validation [of exampleClock exampleBrowser "''not JSON''"] r2
  have e: "\<exists>e. importPortfolio exampleClock exampleBrowser ''not JSON'' = Inl e \<and> isValidationError e"
    by blast
  from import_validation [of exampleClock exampleBrowser "''<exported portfolio>''"] a w
  have "\<exists>imported.
         importPortfolio exampleClock exampleBrowser ''<exported portfolio>'' = Inr imported
         \<and> getProp imported ''createdAt'' = Some (JString (nowISO exampleClock))"
    by (auto simp: exampleBrowser_def exampleJSONParse_def exampleDocument_def
          getProp_def Map_get_def truthy_def)
  then show ?thesis
    using r1 r2 a w e by (simp add: exampleClock_def)
qed

end
